theory Spec2Isabelle
  imports
    Complex_Main
    "HOL-Library.Product_Lexorder"
    "HOL-Library.Char_ord"
    "HOL-Library.List_Lexorder"
    "HOL-Library.AList"
    "HOL-Library.Multiset"
begin

section \<open>Radar de Contratos: the computational core of app.py\<close>

text \<open>
  The program is a single script: two SQL texts (\<open>SQL_RESUMO\<close>, \<open>SQL_DETALHES\<close>), the
  helper \<open>interval_month\<close>, the two fetch functions and the page code that picks the
  default contract. The development below embeds each of them as a HOL function.

  Conventions of the embedding:
  \<^item> SQL \<open>FLOAT\<close> and Python \<open>float\<close> values are modelled by \<^typ>\<open>real\<close>: arithmetic is
    exact, IEEE rounding is not modelled;
  \<^item> SQL \<open>NULL\<close> and the pandas missing value (\<open>NaN\<close>/\<open>None\<close>) are \<^term>\<open>None\<close>;
  \<^item> a table is the list of its rows (a bag in some scan order);
  \<^item> a column \<open>t.X\<close> of the SQL text is the record field \<open>t_X\<close>, with \<open>t\<close> the alias
    the SQL text gives the table.
\<close>

subsection \<open>Calendar dates and timestamps\<close>

text \<open>
  A \<open>datetime.date\<close> is its three integer fields. A \<open>pd.Timestamp\<close> is a date together
  with a time of day (nanoseconds since midnight). The representable range of
  \<open>pd.Timestamp\<close> (years 1677 to 2262) is not modelled: years are unbounded.
\<close>

record date =
  year :: int
  month :: int
  day :: int

record timestamp =
  ts_date :: date
  ts_time :: nat

text \<open>\<open>calendar.isleap\<close> and \<open>calendar.monthrange(y, m)[1]\<close>.\<close>

definition isleap :: "int \<Rightarrow> bool" where
  "isleap y = (y mod 4 = 0 \<and> (y mod 100 \<noteq> 0 \<or> y mod 400 = 0))"

definition days_in_month :: "int \<Rightarrow> int \<Rightarrow> int" where
  "days_in_month y m =
     (if m = 2 then (if isleap y then 29 else 28)
      else if m = 4 \<or> m = 6 \<or> m = 9 \<or> m = 11 then 30
      else 31)"

definition valid_date :: "date \<Rightarrow> bool" where
  "valid_date d =
     (1 \<le> month d \<and> month d \<le> 12 \<and> 1 \<le> day d \<and> day d \<le> days_in_month (year d) (month d))"

text \<open>\<open>Timestamp.replace(day=n)\<close> and \<open>Timestamp.date()\<close>.\<close>

definition replace_day :: "timestamp \<Rightarrow> int \<Rightarrow> timestamp" where
  "replace_day ts n = ts\<lparr>ts_date := (ts_date ts)\<lparr>day := n\<rparr>\<rparr>"

definition to_date :: "timestamp \<Rightarrow> date" where
  "to_date ts = ts_date ts"

text \<open>
  \<open>ts + relativedelta(months=1)\<close>, as dateutil's \<open>relativedelta.__radd__\<close> computes it:
  the month is advanced (the year with it after December) and the day is clamped to the
  length of the target month; the time of day is kept.
\<close>

definition add_relativedelta_months1 :: "timestamp \<Rightarrow> timestamp" where
  "add_relativedelta_months1 ts =
     (let d = ts_date ts;
          m1 = month d + 1;
          y = (if m1 > 12 then year d + 1 else year d);
          m = (if m1 > 12 then m1 - 12 else m1);
          dy = min (days_in_month y m) (day d)
      in ts\<lparr>ts_date := \<lparr>year = y, month = m, day = dy\<rparr>\<rparr>)"

text \<open>\<open>ts - pd.Timedelta(days=1)\<close>: the same time of day on the previous calendar day.\<close>

definition sub_timedelta_days1 :: "timestamp \<Rightarrow> timestamp" where
  "sub_timedelta_days1 ts =
     (let d = ts_date ts
      in ts\<lparr>ts_date :=
           (if day d > 1 then d\<lparr>day := day d - 1\<rparr>
            else if month d > 1
              then \<lparr>year = year d, month = month d - 1,
                    day = days_in_month (year d) (month d - 1)\<rparr>
            else \<lparr>year = year d - 1, month = 12, day = 31\<rparr>)\<rparr>)"

text \<open>
  \<^verbatim>\<open>
  def interval_month(month):
      ini = month.replace(day=1).date()
      fim = (month + relativedelta(months=1) - pd.Timedelta(days=1)).date()
      return ini, fim
  \<close>
\<close>

definition interval_month :: "timestamp \<Rightarrow> date \<times> date" where
  "interval_month ts =
     (let ini = to_date (replace_day ts 1);
          fim = to_date (sub_timedelta_days1 (add_relativedelta_months1 ts))
      in (ini, fim))"

text \<open>The first and the last calendar day of the month a date lies in.\<close>

definition first_of_month :: "date \<Rightarrow> date" where
  "first_of_month d = \<lparr>year = year d, month = month d, day = 1\<rparr>"

definition last_of_month :: "date \<Rightarrow> date" where
  "last_of_month d = \<lparr>year = year d, month = month d, day = days_in_month (year d) (month d)\<rparr>"

subsection \<open>The severity rule\<close>

text \<open>
  The four labels of \<open>classifica\<close>. The source's strings carry emoji and accented
  letters; they are named here by their words.
\<close>

datatype status = Sem_avaliacao | Critico | Alerta | OK

text \<open>
  \<^verbatim>\<open>
  def classifica(row):
      if pd.isna(row.PiorNota):       return 3, "Sem avaliacao"
      if row.PiorNota < limiar - 0.5: return 0, "Critico"
      if row.PiorNota < limiar:       return 1, "Alerta"
      return 2, "OK"
  \<close>
  \<open>limiar\<close> is the enclosing function's parameter; the row is read only at \<open>PiorNota\<close>.
\<close>

fun classifica :: "real \<Rightarrow> real option \<Rightarrow> nat \<times> status" where
  "classifica limiar None = (3, Sem_avaliacao)"
| "classifica limiar (Some nota) =
     (if nota < limiar - 0.5 then (0, Critico)
      else if nota < limiar then (1, Alerta)
      else (2, OK))"

subsection \<open>The data store\<close>

text \<open>
  The five relations the two SQL texts read, with the columns they read. The schema is
  not part of the program; the columns are those the SQL names, with the types the
  spec gives them (identifiers and sub-scores are integers, the period is a date, the
  comment is optional). A selector is named \<open>alias_Column\<close> after the alias of its table
  in the SQL text: \<open>c.Id\<close> is \<open>c_Id\<close>, \<open>pec.Ativo\<close> is \<open>pec_Ativo\<close>.
\<close>

record contrato =
  c_Id :: int
  c_EmpresaId :: int
  c_Objeto :: string
  c_IsAtivo :: bool

record empresa =
  e_Id :: int
  e_Nome :: string

record projeto_empresa_colaborador =
  pec_ContratoId :: int
  pec_ColaboradorId :: int
  pec_Ativo :: bool

record colaborador =
  col_Id :: int
  col_NomeCompleto :: string

record avaliacao_colaborador =
  ac_ColaboradorId :: int
  ac_ContratoId :: int
  ac_Periodo :: date
  ac_Tecnico :: int
  ac_Comunicacao :: int
  ac_Comprometimento :: int
  ac_Descricao :: "string option"

record store =
  Contratos :: "contrato list"
  Empresas :: "empresa list"
  ProjetoEmpresaColaboradores :: "projeto_empresa_colaborador list"
  Colaboradores :: "colaborador list"
  AvaliacaoColaboradores :: "avaliacao_colaborador list"

text \<open>Dates compare as (year, month, day) triples; \<open>x BETWEEN lo AND hi\<close> is inclusive.\<close>

definition date_key :: "date \<Rightarrow> int \<times> int \<times> int" where
  "date_key d = (year d, month d, day d)"

definition date_le :: "date \<Rightarrow> date \<Rightarrow> bool" where
  "date_le a b = (date_key a \<le> date_key b)"

definition between :: "date \<Rightarrow> date \<Rightarrow> date \<Rightarrow> bool" where
  "between x lo hi = (date_le lo x \<and> date_le x hi)"

text \<open>
  The derived score of one evaluation:
  \<open>(CAST(Tecnico AS FLOAT) + CAST(Comunicacao AS FLOAT) + CAST(Comprometimento AS FLOAT)) / 3.0\<close>.
\<close>

definition nota :: "avaliacao_colaborador \<Rightarrow> real" where
  "nota ac =
     (real_of_int (ac_Tecnico ac) + real_of_int (ac_Comunicacao ac)
        + real_of_int (ac_Comprometimento ac)) / 3"

subsection \<open>SQL aggregates\<close>

text \<open>
  \<open>MIN\<close> and \<open>AVG\<close> skip \<open>NULL\<close> and are \<open>NULL\<close> when nothing is left; \<open>AVG\<close> of non-null
  values (the \<open>notas\<close> subquery) divides their sum by their number.
\<close>

definition avg :: "real list \<Rightarrow> real" where
  "avg xs = sum_list xs / real (length xs)"

definition non_null :: "'a option list \<Rightarrow> 'a list" where
  "non_null xs = [x. Some x \<leftarrow> xs]"

definition sql_min :: "real option list \<Rightarrow> real option" where
  "sql_min xs = (case non_null xs of [] \<Rightarrow> None | v # vs \<Rightarrow> Some (fold min vs v))"

definition sql_avg :: "real option list \<Rightarrow> real option" where
  "sql_avg xs = (case non_null xs of [] \<Rightarrow> None | v # vs \<Rightarrow> Some (avg (v # vs)))"

subsection \<open>The summary query \<open>SQL_RESUMO\<close>\<close>

text \<open>
  \<^verbatim>\<open>
  WITH notas AS (
      SELECT  ac.ColaboradorId, AVG((... + ... + ...)/3.0) AS NotaMedia
      FROM    AvaliacaoColaboradores ac
      WHERE   ac.Periodo BETWEEN @ini AND @fim
      GROUP BY ac.ColaboradorId )
  \<close>
  One row per collaborator with an evaluation in the window: the collaborator and the
  mean of the derived scores of all its evaluations in the window.
\<close>

definition notas :: "store \<Rightarrow> date \<Rightarrow> date \<Rightarrow> (int \<times> real) list" where
  "notas st ini fim =
     (let acs = filter (\<lambda>ac. between (ac_Periodo ac) ini fim) (AvaliacaoColaboradores st)
      in map (\<lambda>k. (k, avg (map nota (filter (\<lambda>ac. ac_ColaboradorId ac = k) acs))))
           (remdups (map ac_ColaboradorId acs)))"

text \<open>
  \<open>LEFT JOIN notas n ON n.ColaboradorId = pec.ColaboradorId\<close>: the \<open>NotaMedia\<close> of every
  matching row of \<open>notas\<close>, or one \<open>NULL\<close> when none matches.
\<close>

definition left_join_notas :: "(int \<times> real) list \<Rightarrow> int \<Rightarrow> real option list" where
  "left_join_notas ns k =
     (case filter (\<lambda>n. fst n = k) ns of
        [] \<Rightarrow> [None]
      | m # ms \<Rightarrow> map (\<lambda>n. Some (snd n)) (m # ms))"

text \<open>
  \<^verbatim>\<open>
  FROM      Contratos c
  JOIN      Empresas e ON e.Id = c.EmpresaId AND c.IsAtivo = 1
  JOIN      ProjetoEmpresaColaboradores pec ON pec.ContratoId = c.Id AND pec.Ativo = 1
  LEFT JOIN notas n ON n.ColaboradorId = pec.ColaboradorId
  \<close>
  The joined rows, before grouping: contract, client, assignment and \<open>n.NotaMedia\<close>.
\<close>

type_synonym resumo_joined = "contrato \<times> empresa \<times> projeto_empresa_colaborador \<times> real option"

definition resumo_from :: "store \<Rightarrow> date \<Rightarrow> date \<Rightarrow> resumo_joined list" where
  "resumo_from st ini fim =
     [(c, e, pec, n).
        c \<leftarrow> Contratos st,
        e \<leftarrow> Empresas st, e_Id e = c_EmpresaId c \<and> c_IsAtivo c,
        pec \<leftarrow> ProjetoEmpresaColaboradores st, pec_ContratoId pec = c_Id c \<and> pec_Ativo pec,
        n \<leftarrow> left_join_notas (notas st ini fim) (pec_ColaboradorId pec)]"

text \<open>The columns of the summary frame, as \<open>pd.read_sql\<close> returns them.\<close>

record resumo_row =
  ContratoId :: int
  Cliente :: string
  Projeto :: string
  NColaboradores :: nat
  PiorNota :: "real option"
  NotaMedia :: "real option"
  ColabsRuins :: nat

text \<open>
  The column \<open>Colaboradores\<close> of the frame is the field \<open>NColaboradores\<close>, the name
  \<open>Colaboradores\<close> being the table's.

  \<open>GROUP BY c.Id, e.Nome, c.Objeto\<close> and the select list over one group:
  \<^verbatim>\<open>
  COUNT(DISTINCT pec.ColaboradorId)                      AS Colaboradores,
  MIN(n.NotaMedia)                                       AS PiorNota,
  AVG(n.NotaMedia)                                       AS NotaMedia,
  SUM(CASE WHEN n.NotaMedia IS NOT NULL
            AND n.NotaMedia < :limiar THEN 1 ELSE 0 END) AS ColabsRuins
  \<close>
\<close>

definition group_key :: "resumo_joined \<Rightarrow> int \<times> string \<times> string" where
  "group_key r = (case r of (c, e, pec, n) \<Rightarrow> (c_Id c, e_Nome e, c_Objeto c))"

definition joined_colab :: "resumo_joined \<Rightarrow> int" where
  "joined_colab r = (case r of (c, e, pec, n) \<Rightarrow> pec_ColaboradorId pec)"

definition joined_nota :: "resumo_joined \<Rightarrow> real option" where
  "joined_nota r = (case r of (c, e, pec, n) \<Rightarrow> n)"

definition ruim :: "real \<Rightarrow> real option \<Rightarrow> nat" where
  "ruim limiar n = (case n of None \<Rightarrow> 0 | Some x \<Rightarrow> if x < limiar then 1 else 0)"

definition select_resumo :: "real \<Rightarrow> int \<times> string \<times> string \<Rightarrow> resumo_joined list \<Rightarrow> resumo_row" where
  "select_resumo limiar k g =
     (case k of (cid, nome, objeto) \<Rightarrow>
        \<lparr>ContratoId = cid, Cliente = nome, Projeto = objeto,
         NColaboradores = length (remdups (map joined_colab g)),
         PiorNota = sql_min (map joined_nota g),
         NotaMedia = sql_avg (map joined_nota g),
         ColabsRuins = sum_list (map (\<lambda>r. ruim limiar (joined_nota r)) g)\<rparr>)"

text \<open>
  The whole query. SQL gives the groups no order (there is no \<open>ORDER BY\<close>); the model
  lists them in the order \<open>remdups\<close> leaves.
\<close>

definition SQL_RESUMO :: "store \<Rightarrow> date \<Rightarrow> date \<Rightarrow> real \<Rightarrow> resumo_row list" where
  "SQL_RESUMO st d_ini d_fim limiar =
     (let rows = resumo_from st d_ini d_fim
      in map (\<lambda>k. select_resumo limiar k (filter (\<lambda>r. group_key r = k) rows))
           (remdups (map group_key rows)))"

subsection \<open>The detail query \<open>SQL_DETALHES\<close>\<close>

text \<open>
  \<^verbatim>\<open>
  SELECT  col.NomeCompleto, ac.Periodo, (... + ... + ...)/3.0 AS Nota,
          ac.Tecnico, ac.Comunicacao, ac.Comprometimento, ac.Descricao
  FROM    ProjetoEmpresaColaboradores pec
  JOIN    AvaliacaoColaboradores ac ON ac.ColaboradorId = pec.ColaboradorId
                                   AND ac.Periodo BETWEEN :d_ini AND :d_fim
  JOIN    Colaboradores col         ON col.Id = ac.ColaboradorId
  WHERE   pec.ContratoId = :cid AND ac.ContratoId = :cid AND pec.Ativo = 1
  ORDER BY col.NomeCompleto, ac.Periodo DESC
  \<close>
\<close>

type_synonym detalhes_joined = "projeto_empresa_colaborador \<times> avaliacao_colaborador \<times> colaborador"

definition detalhes_from :: "store \<Rightarrow> int \<Rightarrow> date \<Rightarrow> date \<Rightarrow> detalhes_joined list" where
  "detalhes_from st cid d_ini d_fim =
     [(pec, ac, col).
        pec \<leftarrow> ProjetoEmpresaColaboradores st,
        ac \<leftarrow> AvaliacaoColaboradores st,
        ac_ColaboradorId ac = pec_ColaboradorId pec \<and> between (ac_Periodo ac) d_ini d_fim,
        col \<leftarrow> Colaboradores st, col_Id col = ac_ColaboradorId ac,
        pec_ContratoId pec = cid \<and> ac_ContratoId ac = cid \<and> pec_Ativo pec]"

record detalhe_row =
  NomeCompleto :: string
  Periodo :: date
  Nota :: real
  Tecnico :: int
  Comunicacao :: int
  Comprometimento :: int
  Descricao :: "string option"

definition select_detalhes :: "detalhes_joined \<Rightarrow> detalhe_row" where
  "select_detalhes r =
     (case r of (pec, ac, col) \<Rightarrow>
        \<lparr>NomeCompleto = col_NomeCompleto col, Periodo = ac_Periodo ac, Nota = nota ac,
         Tecnico = ac_Tecnico ac, Comunicacao = ac_Comunicacao ac,
         Comprometimento = ac_Comprometimento ac, Descricao = ac_Descricao ac\<rparr>)"

text \<open>
  \<open>ORDER BY col.NomeCompleto, ac.Periodo DESC\<close>: names ascending (compared byte by
  byte; the collation of the database is not modelled), then dates descending.
\<close>

definition order_detalhes :: "detalhes_joined \<Rightarrow> string \<times> int \<times> int \<times> int" where
  "order_detalhes r =
     (case r of (pec, ac, col) \<Rightarrow>
        (col_NomeCompleto col,
         - year (ac_Periodo ac), - month (ac_Periodo ac), - day (ac_Periodo ac)))"

definition SQL_DETALHES :: "store \<Rightarrow> int \<Rightarrow> date \<Rightarrow> date \<Rightarrow> detalhe_row list" where
  "SQL_DETALHES st cid d_ini d_fim =
     map select_detalhes (sort_key order_detalhes (detalhes_from st cid d_ini d_fim))"

subsection \<open>\<open>fetch_resumo\<close> and \<open>fetch_detalhes\<close>\<close>

text \<open>
  The frame \<open>fetch_resumo\<close> returns has the summary columns and the two columns
  \<open>Severidade\<close> and \<open>Status\<close> that \<open>classifica\<close> computes.
\<close>

record report_row = resumo_row +
  Severidade :: nat
  Status :: status

datatype py_error = ValueError | StreamlitAPIException

definition apply_classifica :: "real \<Rightarrow> resumo_row \<Rightarrow> report_row" where
  "apply_classifica limiar row =
     (case classifica limiar (PiorNota row) of
        (sev, lab) \<Rightarrow> resumo_row.extend row (report_row.fields sev lab))"

text \<open>
  \<open>df.sort_values(["Severidade", "PiorNota"])\<close>: a stable sort on the two columns,
  ascending, a missing \<open>PiorNota\<close> after every number (\<open>na_position\<close> is \<open>"last"\<close>).
\<close>

definition sort_columns :: "report_row \<Rightarrow> nat \<times> bool \<times> real" where
  "sort_columns r =
     (Severidade r, PiorNota r = None, (case PiorNota r of None \<Rightarrow> 0 | Some x \<Rightarrow> x))"

definition sort_values :: "report_row list \<Rightarrow> report_row list" where
  "sort_values df = sort_key sort_columns df"

text \<open>
  The part of \<open>fetch_resumo\<close> after the query:
  \<^verbatim>\<open>
  df[["Severidade", "Status"]] = df.apply(classifica, axis=1, result_type="expand")
  df.sort_values(["Severidade", "PiorNota"], inplace=True)
  return df
  \<close>
  On a frame with no rows, \<open>df.apply(..., axis=1, result_type="expand")\<close> never calls
  \<open>classifica\<close> and returns a copy of the frame, with its seven columns; assigning seven
  columns to the two keys raises \<open>ValueError\<close> (columns must be same length as key).
\<close>

definition build_report :: "real \<Rightarrow> resumo_row list \<Rightarrow> py_error + report_row list" where
  "build_report limiar df =
     (if df = [] then Inl ValueError
      else Inr (sort_values (map (apply_classifica limiar) df)))"

definition fetch_resumo :: "store \<Rightarrow> timestamp \<Rightarrow> real \<Rightarrow> py_error + report_row list" where
  "fetch_resumo st mes limiar =
     (case interval_month mes of
        (d_ini, d_fim) \<Rightarrow> build_report limiar (SQL_RESUMO st d_ini d_fim limiar))"

definition fetch_detalhes :: "store \<Rightarrow> int \<Rightarrow> timestamp \<Rightarrow> detalhe_row list" where
  "fetch_detalhes st cid mes =
     (case interval_month mes of (d_ini, d_fim) \<Rightarrow> SQL_DETALHES st cid d_ini d_fim)"

subsection \<open>The default contract of the drill-down\<close>

text \<open>
  \<^verbatim>\<open>
  cid_to_nome = {row.ContratoId: f"{row.Cliente} - {row.Projeto}" for row in df.itertuples()}
  cid_default = df.iloc[0]["ContratoId"] if not df.empty else None
  cid = st.selectbox(..., options=list(cid_to_nome.keys()), ...,
                     index=0 if cid_default else None)
  \<close>
  A Python dictionary keeps its keys in the order of their first insertion, as
  \<^const>\<open>AList.update\<close> does. The dash of the label is an en dash in the source.
\<close>

definition cid_to_nome :: "report_row list \<Rightarrow> (int \<times> string) list" where
  "cid_to_nome df =
     fold (\<lambda>row. AList.update (ContratoId row) (Cliente row @ '' - '' @ Projeto row)) df []"

definition cid_default :: "report_row list \<Rightarrow> int option" where
  "cid_default df = (case df of [] \<Rightarrow> None | row # _ \<Rightarrow> Some (ContratoId row))"

text \<open>Python's truth value of \<open>cid_default\<close>: \<open>None\<close> and the integer 0 are false.\<close>

definition truthy :: "int option \<Rightarrow> bool" where
  "truthy v = (case v of None \<Rightarrow> False | Some n \<Rightarrow> n \<noteq> 0)"

text \<open>
  The initial value of \<open>st.selectbox\<close>: the option at \<open>index\<close>, nothing when \<open>index\<close> is
  \<open>None\<close>, and an exception when \<open>index\<close> is out of range.
\<close>

definition selectbox :: "'a list \<Rightarrow> nat option \<Rightarrow> py_error + 'a option" where
  "selectbox options index =
     (case index of
        None \<Rightarrow> Inr None
      | Some i \<Rightarrow> if i < length options then Inr (Some (options ! i))
                  else Inl StreamlitAPIException)"

definition cid :: "report_row list \<Rightarrow> py_error + int option" where
  "cid df =
     selectbox (map fst (cid_to_nome df)) (if truthy (cid_default df) then Some 0 else None)"

subsection \<open>The order of the report\<close>

text \<open>
  The order the spec asks of two adjacent rows: \<open>nota_le\<close> compares two scores with a
  missing score above every number, \<open>in_order a b\<close> holds when \<open>a\<close> has the smaller
  rank, or the same rank and a score that is not larger.
\<close>

definition nota_le :: "real option \<Rightarrow> real option \<Rightarrow> bool" where
  "nota_le a b =
     (case b of None \<Rightarrow> True
      | Some y \<Rightarrow> (case a of None \<Rightarrow> False | Some x \<Rightarrow> x \<le> y))"

definition in_order :: "report_row \<Rightarrow> report_row \<Rightarrow> bool" where
  "in_order a b =
     (Severidade a < Severidade b
      \<or> (Severidade a = Severidade b \<and> nota_le (PiorNota a) (PiorNota b)))"

subsection \<open>Sample frames\<close>

definition unrated_row :: resumo_row where
  "unrated_row = \<lparr>ContratoId = 1, Cliente = ''A'', Projeto = ''P'', NColaboradores = 1,
         PiorNota = None, NotaMedia = None, ColabsRuins = 0\<rparr>"

definition critical_row :: resumo_row where
  "critical_row = \<lparr>ContratoId = 2, Cliente = ''B'', Projeto = ''Q'', NColaboradores = 2,
         PiorNota = Some 2, NotaMedia = Some 3, ColabsRuins = 1\<rparr>"

definition zero_row :: report_row where
  "zero_row = \<lparr>ContratoId = 0, Cliente = ''A'', Projeto = ''P'', NColaboradores = 1,
         PiorNota = Some 2, NotaMedia = Some 2, ColabsRuins = 1,
         Severidade = 0, Status = Critico\<rparr>"

subsection \<open>The scope of the detail query\<close>

text \<open>
  An evaluation is in the scope of a detail request when it is recorded against the
  requested contract and its period lies in the window.
\<close>

definition in_scope :: "int \<Rightarrow> date \<Rightarrow> date \<Rightarrow> avaliacao_colaborador \<Rightarrow> bool" where
  "in_scope k d_ini d_fim ac = (ac_ContratoId ac = k \<and> between (ac_Periodo ac) d_ini d_fim)"

subsection \<open>Sample stores\<close>

definition dt :: "int \<Rightarrow> int \<Rightarrow> int \<Rightarrow> date" where
  "dt y m d = \<lparr>year = y, month = m, day = d\<rparr>"

text \<open>
  One client with two active contracts; Ana is assigned to both, and her one evaluation
  of February 2024 is recorded against contract 2.
\<close>

definition two_contracts :: store where
  "two_contracts =
     \<lparr>Contratos =
        [\<lparr>c_Id = 1, c_EmpresaId = 10, c_Objeto = ''Portal'', c_IsAtivo = True\<rparr>,
         \<lparr>c_Id = 2, c_EmpresaId = 10, c_Objeto = ''Suporte'', c_IsAtivo = True\<rparr>],
      Empresas = [\<lparr>e_Id = 10, e_Nome = ''Acme''\<rparr>],
      ProjetoEmpresaColaboradores =
        [\<lparr>pec_ContratoId = 1, pec_ColaboradorId = 7, pec_Ativo = True\<rparr>,
         \<lparr>pec_ContratoId = 2, pec_ColaboradorId = 7, pec_Ativo = True\<rparr>],
      Colaboradores = [\<lparr>col_Id = 7, col_NomeCompleto = ''Ana''\<rparr>],
      AvaliacaoColaboradores =
        [\<lparr>ac_ColaboradorId = 7, ac_ContratoId = 2, ac_Periodo = dt 2024 2 10,
          ac_Tecnico = 2, ac_Comunicacao = 2, ac_Comprometimento = 2, ac_Descricao = None\<rparr>]\<rparr>"

subsection \<open>Notions of the summary claims\<close>

text \<open>
  The average of a collaborator over the window, as the \<open>notas\<close> subquery computes it
  (\<open>None\<close> for a collaborator with no evaluation in the window); whether a collaborator
  has an evaluation in the window; and the active assignment rows of a contract.
\<close>

definition media_colaborador :: "store \<Rightarrow> date \<Rightarrow> date \<Rightarrow> int \<Rightarrow> real option" where
  "media_colaborador st ini fim x =
     (case filter (\<lambda>ac. between (ac_Periodo ac) ini fim \<and> ac_ColaboradorId ac = x)
             (AvaliacaoColaboradores st) of
        [] \<Rightarrow> None
      | ac # acs \<Rightarrow> Some (avg (map nota (ac # acs))))"

definition evaluated :: "store \<Rightarrow> date \<Rightarrow> date \<Rightarrow> int \<Rightarrow> bool" where
  "evaluated st ini fim x =
     (\<exists>ac \<in> set (AvaliacaoColaboradores st).
        ac_ColaboradorId ac = x \<and> between (ac_Periodo ac) ini fim)"

definition assigned :: "store \<Rightarrow> int \<Rightarrow> projeto_empresa_colaborador list" where
  "assigned st k =
     filter (\<lambda>pec. pec_ContratoId pec = k \<and> pec_Ativo pec) (ProjetoEmpresaColaboradores st)"

definition joined_rows :: "store \<Rightarrow> date \<Rightarrow> date \<Rightarrow> contrato \<Rightarrow> empresa \<Rightarrow> resumo_joined list" where
  "joined_rows st ini fim c e =
     map (\<lambda>pec. (c, e, pec, media_colaborador st ini fim (pec_ColaboradorId pec)))
       (assigned st (c_Id c))"

text \<open>
  Modelled from the spec: the schema of the store (its keys and references) is not part
  of the source. The spec gives \<open>Contratos\<close> an id and an owning-client reference and
  \<open>Empresas\<close> an id: every contract refers to a client of the store (\<open>foreign_keys\<close>), and
  no two contracts and no two clients share an id (\<open>primary_keys\<close>).
\<close>

definition foreign_keys :: "store \<Rightarrow> bool" where
  "foreign_keys st =
     (\<forall>c \<in> set (Contratos st). \<exists>e \<in> set (Empresas st). e_Id e = c_EmpresaId c)"

definition primary_keys :: "store \<Rightarrow> bool" where
  "primary_keys st =
     (distinct (map c_Id (Contratos st)) \<and> distinct (map e_Id (Empresas st)))"

text \<open>
  The store with every evaluation recorded against the contract \<open>f\<close> gives it instead
  of its own.
\<close>

definition recorded_against :: "(avaliacao_colaborador \<Rightarrow> int) \<Rightarrow> store \<Rightarrow> store" where
  "recorded_against f st =
     st\<lparr>AvaliacaoColaboradores :=
          map (\<lambda>ac. ac\<lparr>ac_ContratoId := f ac\<rparr>) (AvaliacaoColaboradores st)\<rparr>"

text \<open>
  Following the spec's words for \<open>BadCollaboratorCount\<close>: the number of collaborators
  actively assigned to contract \<open>k\<close> whose average over the window is not null and is
  strictly below the threshold.
\<close>

definition bad_collaborators :: "store \<Rightarrow> date \<Rightarrow> date \<Rightarrow> real \<Rightarrow> int \<Rightarrow> nat" where
  "bad_collaborators st ini fim t k =
     length (filter (\<lambda>x. ruim t (media_colaborador st ini fim x) = 1)
       (remdups (map pec_ColaboradorId (assigned st k))))"

text \<open>
  One contract with three active assignment rows: two for Ana (collaborator 7), one for
  Bia (collaborator 8). In February 2024 Ana's average is 2 and Bia's is 5.
\<close>

definition double_assignment :: store where
  "double_assignment =
     \<lparr>Contratos = [\<lparr>c_Id = 1, c_EmpresaId = 10, c_Objeto = ''Portal'', c_IsAtivo = True\<rparr>],
      Empresas = [\<lparr>e_Id = 10, e_Nome = ''Acme''\<rparr>],
      ProjetoEmpresaColaboradores =
        [\<lparr>pec_ContratoId = 1, pec_ColaboradorId = 7, pec_Ativo = True\<rparr>,
         \<lparr>pec_ContratoId = 1, pec_ColaboradorId = 7, pec_Ativo = True\<rparr>,
         \<lparr>pec_ContratoId = 1, pec_ColaboradorId = 8, pec_Ativo = True\<rparr>],
      Colaboradores =
        [\<lparr>col_Id = 7, col_NomeCompleto = ''Ana''\<rparr>, \<lparr>col_Id = 8, col_NomeCompleto = ''Bia''\<rparr>],
      AvaliacaoColaboradores =
        [\<lparr>ac_ColaboradorId = 7, ac_ContratoId = 1, ac_Periodo = dt 2024 2 10,
          ac_Tecnico = 2, ac_Comunicacao = 2, ac_Comprometimento = 2, ac_Descricao = None\<rparr>,
         \<lparr>ac_ColaboradorId = 8, ac_ContratoId = 1, ac_Periodo = dt 2024 2 11,
          ac_Tecnico = 5, ac_Comunicacao = 5, ac_Comprometimento = 5, ac_Descricao = None\<rparr>]\<rparr>"

text \<open>
  An active contract with one active assignment row and no evaluation, whose client
  reference matches no row of \<open>Empresas\<close>.
\<close>

definition orphan_contract :: store where
  "orphan_contract =
     \<lparr>Contratos = [\<lparr>c_Id = 1, c_EmpresaId = 10, c_Objeto = ''Portal'', c_IsAtivo = True\<rparr>],
      Empresas = [],
      ProjetoEmpresaColaboradores =
        [\<lparr>pec_ContratoId = 1, pec_ColaboradorId = 7, pec_Ativo = True\<rparr>],
      Colaboradores = [\<lparr>col_Id = 7, col_NomeCompleto = ''Ana''\<rparr>],
      AvaliacaoColaboradores = []\<rparr>"

text \<open>
  Two contracts of one client. Ana (7) is assigned to both and Bia (8) to contract 1.
  In February 2024 Ana has one evaluation recorded against contract 1 (score 4) and one
  against contract 2 (score 1); her evaluation of January (score 5) is outside the
  window. Bia's only evaluation (score 3) is recorded against contract 2.
\<close>

definition mixed_evaluations :: store where
  "mixed_evaluations =
     \<lparr>Contratos =
        [\<lparr>c_Id = 1, c_EmpresaId = 10, c_Objeto = ''Portal'', c_IsAtivo = True\<rparr>,
         \<lparr>c_Id = 2, c_EmpresaId = 10, c_Objeto = ''Suporte'', c_IsAtivo = True\<rparr>],
      Empresas = [\<lparr>e_Id = 10, e_Nome = ''Acme''\<rparr>],
      ProjetoEmpresaColaboradores =
        [\<lparr>pec_ContratoId = 1, pec_ColaboradorId = 7, pec_Ativo = True\<rparr>,
         \<lparr>pec_ContratoId = 1, pec_ColaboradorId = 8, pec_Ativo = True\<rparr>,
         \<lparr>pec_ContratoId = 2, pec_ColaboradorId = 7, pec_Ativo = True\<rparr>],
      Colaboradores =
        [\<lparr>col_Id = 7, col_NomeCompleto = ''Ana''\<rparr>, \<lparr>col_Id = 8, col_NomeCompleto = ''Bia''\<rparr>],
      AvaliacaoColaboradores =
        [\<lparr>ac_ColaboradorId = 7, ac_ContratoId = 1, ac_Periodo = dt 2024 2 5,
          ac_Tecnico = 4, ac_Comunicacao = 4, ac_Comprometimento = 4, ac_Descricao = None\<rparr>,
         \<lparr>ac_ColaboradorId = 7, ac_ContratoId = 2, ac_Periodo = dt 2024 2 10,
          ac_Tecnico = 1, ac_Comunicacao = 1, ac_Comprometimento = 1, ac_Descricao = None\<rparr>,
         \<lparr>ac_ColaboradorId = 7, ac_ContratoId = 2, ac_Periodo = dt 2024 1 20,
          ac_Tecnico = 5, ac_Comunicacao = 5, ac_Comprometimento = 5, ac_Descricao = None\<rparr>,
         \<lparr>ac_ColaboradorId = 8, ac_ContratoId = 2, ac_Periodo = dt 2024 2 12,
          ac_Tecnico = 3, ac_Comunicacao = 3, ac_Comprometimento = 3, ac_Descricao = None\<rparr>]\<rparr>"

text \<open>The store with only the evaluations recorded against contract \<open>k\<close>.\<close>

definition recorded_only :: "int \<Rightarrow> store \<Rightarrow> store" where
  "recorded_only k st =
     st\<lparr>AvaliacaoColaboradores := filter (\<lambda>ac. ac_ContratoId ac = k) (AvaliacaoColaboradores st)\<rparr>"

section \<open>Theorems\<close>

subsection \<open>The month window\<close>

lemma days_in_month_ge_28: "28 \<le> days_in_month y m"
  by (simp add: days_in_month_def)

lemma interval_month_start: "fst (interval_month ts) = first_of_month (ts_date ts)"
  by (simp add: interval_month_def to_date_def replace_day_def first_of_month_def)

text \<open>
  Called on the first day of a month, as the page does (its months come from a
  month-start date range), \<open>interval_month\<close> returns the first and the last day of that
  month, whatever the time of day, across year ends and leap years.
\<close>

lemma interval_month_on_first_day:
  assumes "valid_date (ts_date ts)" and "day (ts_date ts) = 1"
  shows "interval_month ts = (first_of_month (ts_date ts), last_of_month (ts_date ts))"
  using assms
  by (auto simp: interval_month_def to_date_def replace_day_def first_of_month_def
      last_of_month_def add_relativedelta_months1_def sub_timedelta_days1_def Let_def
      valid_date_def days_in_month_def)

text \<open>
  On any later day of the month the end of the window lies in the following month: the
  second line of \<open>interval_month\<close> does not reset the day as the first line does.
\<close>

lemma interval_month_end_iff:
  assumes "valid_date (ts_date ts)"
  shows "snd (interval_month ts) = last_of_month (ts_date ts) \<longleftrightarrow> day (ts_date ts) = 1"
proof
  assume "day (ts_date ts) = 1"
  with assms show "snd (interval_month ts) = last_of_month (ts_date ts)"
    by (simp add: interval_month_on_first_day)
next
  assume e: "snd (interval_month ts) = last_of_month (ts_date ts)"
  show "day (ts_date ts) = 1"
  proof (rule ccontr)
    assume "day (ts_date ts) \<noteq> 1"
    with assms have d2: "2 \<le> day (ts_date ts)"
      by (simp add: valid_date_def)
    let ?a = "add_relativedelta_months1 ts"
    have "2 \<le> day (ts_date ?a)"
      using d2 days_in_month_ge_28 [of "if month (ts_date ts) + 1 > 12 then year (ts_date ts) + 1 else year (ts_date ts)"
          "if month (ts_date ts) + 1 > 12 then month (ts_date ts) + 1 - 12 else month (ts_date ts) + 1"]
      by (simp add: add_relativedelta_months1_def Let_def)
    then have "month (snd (interval_month ts)) = month (ts_date ?a)"
      by (simp add: interval_month_def to_date_def sub_timedelta_days1_def Let_def)
    moreover have "month (ts_date ?a) \<noteq> month (ts_date ts)"
      using assms by (simp add: add_relativedelta_months1_def Let_def valid_date_def)
    ultimately show False
      using e by (simp add: last_of_month_def)
  qed
qed

text \<open>
  C1. The claim: for every valid date \<open>d\<close>, whatever its day of the month,
  \<open>interval_month d\<close> is (first day of \<open>d\<close>'s month, last day of \<open>d\<close>'s month); any date in
  2024-02 gives (2024-02-01, 2024-02-29). The code at 2024-02-15: the start is
  2024-02-01, but the end is 2024-03-14, not 2024-02-29.
\<close>

theorem interval_month_mid_february:
  "interval_month \<lparr>ts_date = \<lparr>year = 2024, month = 2, day = 15\<rparr>, ts_time = 0\<rparr>
     = (\<lparr>year = 2024, month = 2, day = 1\<rparr>, \<lparr>year = 2024, month = 3, day = 14\<rparr>)
   \<and> valid_date \<lparr>year = 2024, month = 2, day = 15\<rparr>
   \<and> last_of_month \<lparr>year = 2024, month = 2, day = 15\<rparr> = \<lparr>year = 2024, month = 2, day = 29\<rparr>"
  by (simp add: interval_month_def to_date_def replace_day_def add_relativedelta_months1_def
      sub_timedelta_days1_def Let_def days_in_month_def isleap_def valid_date_def
      last_of_month_def)

subsection \<open>The severity rule\<close>



subsection \<open>The report and its order\<close>

lemma apply_classifica_sel:
  "PiorNota (apply_classifica t r) = PiorNota r"
  "ContratoId (apply_classifica t r) = ContratoId r"
  "Severidade (apply_classifica t r) = fst (classifica t (PiorNota r))"
  "Status (apply_classifica t r) = snd (classifica t (PiorNota r))"
  by (simp_all add: apply_classifica_def resumo_row.defs report_row.defs split: prod.splits)

lemma classifica_rank3: "fst (classifica t n) = 3 \<longleftrightarrow> n = None"
  by (cases n) simp_all

lemma sort_columns_le: "sort_columns a \<le> sort_columns b \<Longrightarrow> in_order a b"
  by (auto simp: sort_columns_def in_order_def nota_le_def less_eq_prod_def
      split: option.splits)

lemma sort_values_adjacent:
  assumes "Suc i < length (sort_values df)"
  shows "in_order (sort_values df ! i) (sort_values df ! Suc i)"
proof -
  have "sorted (map sort_columns (sort_values df))"
    by (simp add: sort_values_def)
  then have "map sort_columns (sort_values df) ! i \<le> map sort_columns (sort_values df) ! Suc i"
    using assms by (simp add: sorted_iff_nth_Suc del: nth_map)
  then show ?thesis
    using assms by (simp add: sort_columns_le)
qed

lemma build_report_total: "df \<noteq> [] \<Longrightarrow> \<exists>rep. build_report t df = Inr rep"
  by (simp add: build_report_def)

lemma build_report_Inr:
  assumes "build_report t df = Inr rep"
  shows "rep = sort_values (map (apply_classifica t) df)"
  using assms by (simp add: build_report_def split: if_splits)

text \<open>
  C3. For every summary frame \<open>df\<close> and threshold \<open>t\<close>: a frame with at least one row
  gives a report, and in every report that \<open>build_report\<close> (the part of \<open>fetch_resumo\<close>
  after the query) returns, any two adjacent rows \<open>a\<close>, \<open>b\<close> have
  \<open>a.Severidade < b.Severidade\<close>, or the same \<open>Severidade\<close> and
  \<open>a.PiorNota \<le> b.PiorNota\<close> with a missing score above every number; a score is missing
  exactly in the rows of rank 3; and the report is a rearrangement of the classified
  rows of \<open>df\<close>.
\<close>

theorem build_report_ordered:
  "(df \<noteq> [] \<longrightarrow> (\<exists>rep. build_report t df = Inr rep))
   \<and> (\<forall>rep. build_report t df = Inr rep \<longrightarrow>
         (\<forall>i. Suc i < length rep \<longrightarrow> in_order (rep ! i) (rep ! Suc i))
         \<and> (\<forall>r \<in> set rep. PiorNota r = None \<longleftrightarrow> Severidade r = 3)
         \<and> mset rep = mset (map (apply_classifica t) df))"
proof (intro conjI allI impI)
  assume "df \<noteq> []"
  then show "\<exists>rep. build_report t df = Inr rep"
    by (rule build_report_total)
next
  fix rep i
  assume "build_report t df = Inr rep" and "Suc i < length rep"
  then show "in_order (rep ! i) (rep ! Suc i)"
    using sort_values_adjacent build_report_Inr by blast
next
  fix rep
  assume "build_report t df = Inr rep"
  then have "rep = sort_values (map (apply_classifica t) df)"
    by (rule build_report_Inr)
  then have "set rep = apply_classifica t ` set df"
    by (simp add: sort_values_def)
  then show "\<forall>r \<in> set rep. PiorNota r = None \<longleftrightarrow> Severidade r = 3"
    by (auto simp: apply_classifica_sel classifica_rank3)
next
  fix rep
  assume "build_report t df = Inr rep"
  then have "rep = sort_values (map (apply_classifica t) df)"
    by (rule build_report_Inr)
  then show "mset rep = mset (map (apply_classifica t) df)"
    by (simp add: sort_values_def)
qed

lemma build_report_sample:
  "build_report 3 [unrated_row, critical_row]
     = Inr [apply_classifica 3 critical_row, apply_classifica 3 unrated_row]"
  by (simp add: build_report_def sort_values_def sort_columns_def apply_classifica_sel
      unrated_row_def critical_row_def)

theorem build_report_ordered_witness:
  "build_report 3 [unrated_row, critical_row]
     = Inr [apply_classifica 3 critical_row, apply_classifica 3 unrated_row]
   \<and> in_order (apply_classifica 3 critical_row) (apply_classifica 3 unrated_row)
   \<and> Severidade (apply_classifica 3 critical_row) = 0
   \<and> PiorNota (apply_classifica 3 critical_row) = Some 2
   \<and> Severidade (apply_classifica 3 unrated_row) = 3
   \<and> PiorNota (apply_classifica 3 unrated_row) = None"
  using build_report_ordered [of "[unrated_row, critical_row]" 3] build_report_sample
  by (simp add: apply_classifica_sel unrated_row_def critical_row_def)

text \<open>The same order holds of every frame \<open>fetch_resumo\<close> returns.\<close>

lemma fetch_resumo_adjacent:
  assumes "fetch_resumo st mes t = Inr rep" and "Suc i < length rep"
  shows "in_order (rep ! i) (rep ! Suc i)"
proof -
  obtain d_ini d_fim where "interval_month mes = (d_ini, d_fim)"
    by (cases "interval_month mes")
  with assms(1) have "build_report t (SQL_RESUMO st d_ini d_fim t) = Inr rep"
    by (simp add: fetch_resumo_def)
  then have "rep = sort_values (map (apply_classifica t) (SQL_RESUMO st d_ini d_fim t))"
    by (rule build_report_Inr)
  with assms(2) show ?thesis
    by (simp add: sort_values_adjacent)
qed

subsection \<open>The default contract\<close>

lemma fold_update_first_key:
  "\<exists>ks. map fst (fold (\<lambda>row. AList.update (f row) (g row)) df ((k0, v0) # al)) = k0 # ks"
proof (induction df arbitrary: v0 al)
  case Nil
  show ?case by simp
next
  case (Cons row df)
  show ?case
  proof (cases "f row = k0")
    case True
    then show ?thesis using Cons.IH [of "g row" al] by simp
  next
    case False
    then show ?thesis using Cons.IH [of v0 "AList.update (f row) (g row) al"] by simp
  qed
qed

lemma cid_to_nome_first:
  "\<exists>ks. map fst (cid_to_nome (row # df)) = ContratoId row # ks"
  using fold_update_first_key [of "ContratoId" "\<lambda>row. Cliente row @ '' - '' @ Projeto row"
      df "ContratoId row" _ "[]"]
  by (simp add: cid_to_nome_def)

text \<open>
  \<open>cid_default\<close> is the \<open>ContratoId\<close> of the first row of the frame, and \<open>None\<close> for a
  frame with no rows.
\<close>

lemma cid_default_first:
  "cid_default [] = None" "cid_default (row # df) = Some (ContratoId row)"
  by (simp_all add: cid_default_def)

text \<open>
  The select box starts on that default when the first contract's identifier is not 0,
  and on nothing for a frame with no rows.
\<close>

lemma cid_nonzero:
  assumes "ContratoId row \<noteq> 0"
  shows "cid (row # df) = Inr (cid_default (row # df))"
proof -
  obtain ks where "map fst (cid_to_nome (row # df)) = ContratoId row # ks"
    using cid_to_nome_first [of row df] by auto
  with assms show ?thesis
    by (simp add: cid_def selectbox_def truthy_def cid_default_def)
qed

lemma cid_empty: "cid [] = Inr (cid_default [])"
  by (simp add: cid_def selectbox_def truthy_def cid_default_def)

text \<open>
  C9. The claim: \<open>cid_default\<close> is the first row's \<open>ContratoId\<close>, or none for an empty
  report, and the select box is preselected on exactly this default. The code on a
  report whose first row is contract 0: the default is contract 0, but
  \<open>index=0 if cid_default else None\<close> takes 0 for false and the select box starts with no
  contract selected.
\<close>

theorem cid_contract_zero:
  "cid_default [zero_row] = Some 0
   \<and> map fst (cid_to_nome [zero_row]) = [0]
   \<and> cid [zero_row] = Inr None"
  by (simp add: cid_def selectbox_def truthy_def cid_default_def cid_to_nome_def zero_row_def)

subsection \<open>The detail query\<close>

lemma concat_map_filter_nil:
  assumes "\<And>x. x \<in> set xs \<Longrightarrow> \<not> P x \<Longrightarrow> f x = []"
  shows "concat (map f (filter P xs)) = concat (map f xs)"
  using assms by (induction xs) auto

lemma detalhes_from_iff:
  "(pec, ac, col) \<in> set (detalhes_from st k d_ini d_fim) \<longleftrightarrow>
     pec \<in> set (ProjetoEmpresaColaboradores st) \<and> ac \<in> set (AvaliacaoColaboradores st)
     \<and> col \<in> set (Colaboradores st)
     \<and> ac_ColaboradorId ac = pec_ColaboradorId pec \<and> between (ac_Periodo ac) d_ini d_fim
     \<and> col_Id col = ac_ColaboradorId ac
     \<and> pec_ContratoId pec = k \<and> ac_ContratoId ac = k \<and> pec_Ativo pec"
  by (auto simp: detalhes_from_def)

lemma detalhes_from_in_scope:
  "detalhes_from (st\<lparr>AvaliacaoColaboradores :=
       filter (in_scope k d_ini d_fim) (AvaliacaoColaboradores st)\<rparr>) k d_ini d_fim
   = detalhes_from st k d_ini d_fim"
proof -
  define F :: "projeto_empresa_colaborador \<Rightarrow> avaliacao_colaborador \<Rightarrow> detalhes_joined list"
    where "F = (\<lambda>pec ac.
       if ac_ColaboradorId ac = pec_ColaboradorId pec \<and> between (ac_Periodo ac) d_ini d_fim
       then concat (map (\<lambda>col. if col_Id col = ac_ColaboradorId ac
              then if pec_ContratoId pec = k \<and> ac_ContratoId ac = k \<and> pec_Ativo pec
                   then [(pec, ac, col)] else []
              else []) (Colaboradores st))
       else [])"
  have nil: "F pec ac = []" if "\<not> in_scope k d_ini d_fim ac" for pec ac
    using that by (auto simp: F_def in_scope_def)
  have skip: "concat (map (F pec) (filter (in_scope k d_ini d_fim) acs)) = concat (map (F pec) acs)"
    for pec acs
    by (rule concat_map_filter_nil) (rule nil)
  have "detalhes_from st' k d_ini d_fim
      = concat (map (\<lambda>pec. concat (map (F pec) (AvaliacaoColaboradores st')))
          (ProjetoEmpresaColaboradores st'))"
    if "Colaboradores st' = Colaboradores st" for st'
    using that by (simp add: detalhes_from_def F_def cong: if_cong)
  from this [of st] this [of "st\<lparr>AvaliacaoColaboradores :=
       filter (in_scope k d_ini d_fim) (AvaliacaoColaboradores st)\<rparr>"]
  show ?thesis
    by (simp add: skip)
qed

lemma SQL_DETALHES_rows:
  assumes "r \<in> set (SQL_DETALHES st k d_ini d_fim)"
  shows "\<exists>pec ac col. (pec, ac, col) \<in> set (detalhes_from st k d_ini d_fim)
            \<and> r = select_detalhes (pec, ac, col)"
  using assms by (auto simp: SQL_DETALHES_def)

lemma select_detalhes_Periodo: "Periodo (select_detalhes (pec, ac, col)) = ac_Periodo ac"
  by (simp add: select_detalhes_def)

text \<open>
  C4. For every store, contract \<open>k\<close> and window: every row of \<open>SQL_DETALHES\<close> has its
  period in the window and comes from an evaluation of the store that is recorded
  against \<open>k\<close> itself, joined to an active assignment to \<open>k\<close> of the same collaborator.
  Evaluations recorded against another contract or dated outside the window never
  contribute: deleting all of them from the store leaves the result unchanged, whatever
  the assignments of their collaborators, and a store with no evaluation recorded
  against \<open>k\<close> gives no row.
\<close>

theorem SQL_DETALHES_scoped:
  "(\<forall>r \<in> set (SQL_DETALHES st k d_ini d_fim).
       between (Periodo r) d_ini d_fim
       \<and> (\<exists>pec \<in> set (ProjetoEmpresaColaboradores st).
          \<exists>ac \<in> set (AvaliacaoColaboradores st).
          \<exists>col \<in> set (Colaboradores st).
            r = select_detalhes (pec, ac, col)
            \<and> ac_ContratoId ac = k \<and> between (ac_Periodo ac) d_ini d_fim
            \<and> pec_ContratoId pec = k \<and> pec_Ativo pec
            \<and> ac_ColaboradorId ac = pec_ColaboradorId pec \<and> col_Id col = ac_ColaboradorId ac))
   \<and> SQL_DETALHES (st\<lparr>AvaliacaoColaboradores :=
         filter (in_scope k d_ini d_fim) (AvaliacaoColaboradores st)\<rparr>) k d_ini d_fim
       = SQL_DETALHES st k d_ini d_fim
   \<and> ((\<forall>ac \<in> set (AvaliacaoColaboradores st). ac_ContratoId ac \<noteq> k)
        \<longrightarrow> SQL_DETALHES st k d_ini d_fim = [])"
proof (intro conjI ballI impI)
  fix r
  assume "r \<in> set (SQL_DETALHES st k d_ini d_fim)"
  then obtain pec ac col
    where j: "(pec, ac, col) \<in> set (detalhes_from st k d_ini d_fim)"
      and r: "r = select_detalhes (pec, ac, col)"
    using SQL_DETALHES_rows by blast
  from j r show "between (Periodo r) d_ini d_fim"
    by (simp add: detalhes_from_iff select_detalhes_Periodo)
  from j r show "\<exists>pec \<in> set (ProjetoEmpresaColaboradores st).
          \<exists>ac \<in> set (AvaliacaoColaboradores st).
          \<exists>col \<in> set (Colaboradores st).
            r = select_detalhes (pec, ac, col)
            \<and> ac_ContratoId ac = k \<and> between (ac_Periodo ac) d_ini d_fim
            \<and> pec_ContratoId pec = k \<and> pec_Ativo pec
            \<and> ac_ColaboradorId ac = pec_ColaboradorId pec \<and> col_Id col = ac_ColaboradorId ac"
    unfolding detalhes_from_iff by blast
next
  show "SQL_DETALHES (st\<lparr>AvaliacaoColaboradores :=
         filter (in_scope k d_ini d_fim) (AvaliacaoColaboradores st)\<rparr>) k d_ini d_fim
       = SQL_DETALHES st k d_ini d_fim"
    by (simp add: SQL_DETALHES_def detalhes_from_in_scope)
next
  assume other: "\<forall>ac \<in> set (AvaliacaoColaboradores st). ac_ContratoId ac \<noteq> k"
  have "x \<notin> set (detalhes_from st k d_ini d_fim)" for x
    using other by (cases x) (auto simp: detalhes_from_iff)
  then have "detalhes_from st k d_ini d_fim = []"
    by (cases "detalhes_from st k d_ini d_fim") auto
  then show "SQL_DETALHES st k d_ini d_fim = []"
    by (simp add: SQL_DETALHES_def)
qed

lemma SQL_DETALHES_sample: "SQL_DETALHES two_contracts 2 (dt 2024 2 1) (dt 2024 2 29) =
   [\<lparr>NomeCompleto = ''Ana'', Periodo = dt 2024 2 10, Nota = 2, Tecnico = 2, Comunicacao = 2,
     Comprometimento = 2, Descricao = None\<rparr>]"
  by (simp add: SQL_DETALHES_def detalhes_from_def two_contracts_def dt_def between_def
      date_le_def date_key_def select_detalhes_def nota_def)

theorem SQL_DETALHES_scoped_witness:
  "SQL_DETALHES two_contracts 2 (dt 2024 2 1) (dt 2024 2 29) =
     [\<lparr>NomeCompleto = ''Ana'', Periodo = dt 2024 2 10, Nota = 2, Tecnico = 2, Comunicacao = 2,
       Comprometimento = 2, Descricao = None\<rparr>]
   \<and> between (dt 2024 2 10) (dt 2024 2 1) (dt 2024 2 29)
   \<and> SQL_DETALHES two_contracts 1 (dt 2024 2 1) (dt 2024 2 29) = []"
  using SQL_DETALHES_scoped [of two_contracts 2 "dt 2024 2 1" "dt 2024 2 29"]
    SQL_DETALHES_scoped [of two_contracts 1 "dt 2024 2 1" "dt 2024 2 29"] SQL_DETALHES_sample
  by (simp add: two_contracts_def)

text \<open>Every row \<open>fetch_detalhes\<close> returns is dated in the window of its month.\<close>

lemma fetch_detalhes_window:
  assumes "r \<in> set (fetch_detalhes st k mes)"
  shows "between (Periodo r) (fst (interval_month mes)) (snd (interval_month mes))"
proof -
  from assms have "r \<in> set (SQL_DETALHES st k (fst (interval_month mes)) (snd (interval_month mes)))"
    by (simp add: fetch_detalhes_def case_prod_beta)
  then obtain pec ac col
    where "(pec, ac, col) \<in> set (detalhes_from st k (fst (interval_month mes)) (snd (interval_month mes)))"
      and "r = select_detalhes (pec, ac, col)"
    using SQL_DETALHES_rows by blast
  then show ?thesis
    by (simp add: detalhes_from_iff select_detalhes_Periodo)
qed

subsection \<open>The summary query\<close>

lemma filter_eq_distinct:
  "distinct xs \<Longrightarrow> filter (\<lambda>y. y = x) xs = (if x \<in> set xs then [x] else [])"
  by (induction xs) auto

lemma left_join_notas_media:
  "left_join_notas (notas st ini fim) x = [media_colaborador st ini fim x]"
proof -
  define acs where "acs = filter (\<lambda>ac. between (ac_Periodo ac) ini fim) (AvaliacaoColaboradores st)"
  define g where "g = (\<lambda>k. avg (map nota (filter (\<lambda>ac. ac_ColaboradorId ac = k) acs)))"
  have n: "notas st ini fim = map (\<lambda>k. (k, g k)) (remdups (map ac_ColaboradorId acs))"
    by (simp add: notas_def acs_def g_def)
  have f: "filter (\<lambda>n. fst n = x) (notas st ini fim)
      = (if x \<in> set (map ac_ColaboradorId acs) then [(x, g x)] else [])"
    using filter_eq_distinct [of "remdups (map ac_ColaboradorId acs)" x]
    by (simp add: n filter_map o_def)
  have m: "filter (\<lambda>ac. between (ac_Periodo ac) ini fim \<and> ac_ColaboradorId ac = x)
             (AvaliacaoColaboradores st) = filter (\<lambda>ac. ac_ColaboradorId ac = x) acs"
    by (simp add: acs_def conj_commute)
  show ?thesis
  proof (cases "x \<in> set (map ac_ColaboradorId acs)")
    case True
    then have "filter (\<lambda>ac. ac_ColaboradorId ac = x) acs \<noteq> []"
      by (auto simp: filter_empty_conv)
    then show ?thesis
      using True by (auto simp: left_join_notas_def f media_colaborador_def m g_def split: list.splits)
  next
    case False
    then have "filter (\<lambda>ac. ac_ColaboradorId ac = x) acs = []"
      by (auto simp: filter_empty_conv)
    then show ?thesis
      using False by (simp add: left_join_notas_def f media_colaborador_def m)
  qed
qed

lemma resumo_from_eq:
  "resumo_from st ini fim =
     concat (map (\<lambda>c. concat (map (\<lambda>e.
        if e_Id e = c_EmpresaId c \<and> c_IsAtivo c then joined_rows st ini fim c e else [])
        (Empresas st))) (Contratos st))"
proof -
  have "concat (map (\<lambda>pec. if pec_ContratoId pec = k \<and> pec_Ativo pec then [f pec] else []) ps)
      = map f (filter (\<lambda>pec. pec_ContratoId pec = k \<and> pec_Ativo pec) ps)"
    for k ps and f :: "projeto_empresa_colaborador \<Rightarrow> resumo_joined"
    by (induction ps) auto
  then show ?thesis
    by (simp add: resumo_from_def left_join_notas_media joined_rows_def assigned_def cong: if_cong)
qed

lemma resumo_from_iff:
  "r \<in> set (resumo_from st ini fim) \<longleftrightarrow>
     (\<exists>c \<in> set (Contratos st). \<exists>e \<in> set (Empresas st). \<exists>pec \<in> set (assigned st (c_Id c)).
        e_Id e = c_EmpresaId c \<and> c_IsAtivo c
        \<and> r = (c, e, pec, media_colaborador st ini fim (pec_ColaboradorId pec)))"
  by (auto simp: resumo_from_eq joined_rows_def)

lemma select_resumo_sel:
  "ContratoId (select_resumo t k g) = fst k"
  "Cliente (select_resumo t k g) = fst (snd k)"
  "Projeto (select_resumo t k g) = snd (snd k)"
  "NColaboradores (select_resumo t k g) = length (remdups (map joined_colab g))"
  "PiorNota (select_resumo t k g) = sql_min (map joined_nota g)"
  "NotaMedia (select_resumo t k g) = sql_avg (map joined_nota g)"
  "ColabsRuins (select_resumo t k g) = sum_list (map (\<lambda>r. ruim t (joined_nota r)) g)"
  by (simp_all add: select_resumo_def split: prod.splits)

lemma SQL_RESUMO_rows:
  assumes "r \<in> set (SQL_RESUMO st ini fim t)"
  obtains k where "k \<in> group_key ` set (resumo_from st ini fim)"
    and "r = select_resumo t k (filter (\<lambda>j. group_key j = k) (resumo_from st ini fim))"
  using assms by (auto simp: SQL_RESUMO_def Let_def)

lemma length_mult_le_sum_list:
  fixes xs :: "real list"
  assumes "\<And>x. x \<in> set xs \<Longrightarrow> c \<le> x"
  shows "real (length xs) * c \<le> sum_list xs"
  using assms by (induction xs) (auto simp: algebra_simps add_mono)

lemma fold_min_le:
  fixes v :: real
  assumes "x \<in> set (v # vs)"
  shows "fold min vs v \<le> x"
proof -
  have "fold min vs v = Min (set (v # vs))"
    by (simp only: Min.set_eq_fold)
  then show ?thesis
    using assms by (simp only: Min_le List.finite_set)
qed

lemma sql_min_le_sql_avg:
  assumes "sql_min ns = Some w" and "sql_avg ns = Some m"
  shows "w \<le> m"
proof -
  obtain v vs where nn: "non_null ns = v # vs"
    using assms(1) by (auto simp: sql_min_def split: list.splits)
  have w: "w = fold min vs v" and m: "m = sum_list (v # vs) / real (length (v # vs))"
    using assms by (simp_all add: sql_min_def sql_avg_def avg_def nn)
  have "real (length (v # vs)) * w \<le> sum_list (v # vs)"
    unfolding w by (rule length_mult_le_sum_list) (rule fold_min_le)
  then show ?thesis
    unfolding m by (simp add: pos_le_divide_eq mult.commute)
qed

lemma sql_min_None_iff: "sql_min ns = None \<longleftrightarrow> sql_avg ns = None"
  by (simp add: sql_min_def sql_avg_def split: list.splits)

text \<open>
  In the exact arithmetic of this model, \<open>PiorNota\<close> and \<open>NotaMedia\<close> of a summary row are
  null together, and when both are numbers \<open>PiorNota \<le> NotaMedia\<close>. The program
  computes both in SQL \<open>FLOAT\<close>, where the sum and the division of \<open>AVG\<close> round: the
  lemma says nothing about the rounded values (the mean of seven equal averages
  \<open>(2 + 2 + 1) / 3\<close> rounds one unit in the last place below them).
\<close>

lemma PiorNota_le_NotaMedia_exact:
  "\<forall>r \<in> set (SQL_RESUMO st ini fim t).
      (PiorNota r = None \<longleftrightarrow> NotaMedia r = None)
      \<and> (\<forall>w m. PiorNota r = Some w \<and> NotaMedia r = Some m \<longrightarrow> w \<le> m)"
proof (intro ballI conjI allI impI)
  fix r
  assume "r \<in> set (SQL_RESUMO st ini fim t)"
  then obtain k where r: "r = select_resumo t k (filter (\<lambda>j. group_key j = k) (resumo_from st ini fim))"
    by (rule SQL_RESUMO_rows)
  show "PiorNota r = None \<longleftrightarrow> NotaMedia r = None"
    unfolding r select_resumo_sel by (rule sql_min_None_iff)
  fix w m
  assume "PiorNota r = Some w \<and> NotaMedia r = Some m"
  then show "w \<le> m"
    unfolding r select_resumo_sel using sql_min_le_sql_avg by blast
qed

lemma media_None_iff: "media_colaborador st ini fim x = None \<longleftrightarrow> \<not> evaluated st ini fim x"
proof -
  have "media_colaborador st ini fim x = None \<longleftrightarrow>
      filter (\<lambda>ac. between (ac_Periodo ac) ini fim \<and> ac_ColaboradorId ac = x)
        (AvaliacaoColaboradores st) = []"
    by (simp add: media_colaborador_def split: list.splits)
  also have "\<dots> \<longleftrightarrow> \<not> evaluated st ini fim x"
    by (auto simp: filter_empty_conv evaluated_def)
  finally show ?thesis .
qed

lemma non_null_all_None: "\<forall>n \<in> set ns. n = None \<Longrightarrow> non_null ns = []"
  by (induction ns) (simp_all add: non_null_def)

lemma group_member:
  assumes "j \<in> set (filter (\<lambda>j. group_key j = k) (resumo_from st ini fim))"
  obtains c e pec where "c \<in> set (Contratos st)" "e \<in> set (Empresas st)"
    "pec \<in> set (assigned st (c_Id c))" "e_Id e = c_EmpresaId c" "c_IsAtivo c"
    "j = (c, e, pec, media_colaborador st ini fim (pec_ColaboradorId pec))"
    "k = (c_Id c, e_Nome e, c_Objeto c)"
  using assms by (auto simp: resumo_from_iff group_key_def)

lemma SQL_RESUMO_has_row:
  assumes "c \<in> set (Contratos st)" "c_IsAtivo c" "e \<in> set (Empresas st)" "e_Id e = c_EmpresaId c"
    and "assigned st (c_Id c) \<noteq> []"
  shows "select_resumo t (c_Id c, e_Nome e, c_Objeto c)
           (filter (\<lambda>j. group_key j = (c_Id c, e_Nome e, c_Objeto c)) (resumo_from st ini fim))
         \<in> set (SQL_RESUMO st ini fim t)"
proof -
  obtain pec where "pec \<in> set (assigned st (c_Id c))"
    using assms(5) by (cases "assigned st (c_Id c)") auto
  with assms have "(c, e, pec, media_colaborador st ini fim (pec_ColaboradorId pec))
      \<in> set (resumo_from st ini fim)"
    unfolding resumo_from_iff by blast
  then have "(c_Id c, e_Nome e, c_Objeto c) \<in> group_key ` set (resumo_from st ini fim)"
    by (force simp: group_key_def)
  then show ?thesis
    by (simp add: SQL_RESUMO_def Let_def)
qed

text \<open>
  C5, as amended. In every store: an active contract whose client reference matches a
  row of \<open>Empresas\<close>, with at least one active assignment row, none of whose assigned
  collaborators has an evaluation in the window, has a row in the result of
  \<open>SQL_RESUMO\<close>, and every row of that contract has \<open>PiorNota\<close> and \<open>NotaMedia\<close> null,
  \<open>ColabsRuins = 0\<close> and at least one collaborator.
\<close>

theorem unevaluated_contract_row:
  assumes "c \<in> set (Contratos st)" and "c_IsAtivo c"
    and "e \<in> set (Empresas st)" and "e_Id e = c_EmpresaId c"
    and "assigned st (c_Id c) \<noteq> []"
    and "\<forall>pec \<in> set (assigned st (c_Id c)). \<not> evaluated st ini fim (pec_ColaboradorId pec)"
  shows "(\<exists>r \<in> set (SQL_RESUMO st ini fim t). ContratoId r = c_Id c)
    \<and> (\<forall>r \<in> set (SQL_RESUMO st ini fim t). ContratoId r = c_Id c \<longrightarrow>
          PiorNota r = None \<and> NotaMedia r = None \<and> ColabsRuins r = 0 \<and> 1 \<le> NColaboradores r)"
proof (intro conjI ballI impI)
  from assms(1-5) have "select_resumo t (c_Id c, e_Nome e, c_Objeto c)
           (filter (\<lambda>j. group_key j = (c_Id c, e_Nome e, c_Objeto c)) (resumo_from st ini fim))
         \<in> set (SQL_RESUMO st ini fim t)"
    by (rule SQL_RESUMO_has_row)
  then show "\<exists>r \<in> set (SQL_RESUMO st ini fim t). ContratoId r = c_Id c"
    by (rule rev_bexI) (simp add: select_resumo_sel)
next
  fix r
  assume "r \<in> set (SQL_RESUMO st ini fim t)" and id: "ContratoId r = c_Id c"
  from this(1) obtain k where k: "k \<in> group_key ` set (resumo_from st ini fim)"
    and r: "r = select_resumo t k (filter (\<lambda>j. group_key j = k) (resumo_from st ini fim))"
    by (rule SQL_RESUMO_rows)
  let ?g = "filter (\<lambda>j. group_key j = k) (resumo_from st ini fim)"
  have fk: "fst k = c_Id c"
    using id by (simp add: r select_resumo_sel)
  have null: "joined_nota j = None" if "j \<in> set ?g" for j
  proof -
    from that obtain c' e' pec where "pec \<in> set (assigned st (c_Id c'))"
      and j: "j = (c', e', pec, media_colaborador st ini fim (pec_ColaboradorId pec))"
      and "k = (c_Id c', e_Nome e', c_Objeto c')"
      by (rule group_member)
    with fk have "pec \<in> set (assigned st (c_Id c))"
      by simp
    with assms(6) have "\<not> evaluated st ini fim (pec_ColaboradorId pec)"
      by blast
    then show ?thesis
      by (simp add: j joined_nota_def media_None_iff)
  qed
  have nn: "non_null (map joined_nota ?g) = []"
    by (rule non_null_all_None) (use null in auto)
  have ne: "?g \<noteq> []"
    using k by (auto simp: filter_empty_conv)
  show "PiorNota r = None"
    by (simp add: r select_resumo_sel sql_min_def nn)
  show "NotaMedia r = None"
    by (simp add: r select_resumo_sel sql_avg_def nn)
  show "ColabsRuins r = 0"
    using null by (simp add: r select_resumo_sel ruim_def)
  show "1 \<le> NColaboradores r"
    using ne by (simp add: r select_resumo_sel Suc_le_eq)
qed

text \<open>
  The claim as first stated, without the client row, fails on \<open>orphan_contract\<close>: its
  contract 1 is active and has one active assignment row, collaborator 7 has no
  evaluation in the window, and the inner join on \<open>Empresas\<close> leaves the summary empty.
\<close>

theorem unevaluated_contract_orphan:
  "Contratos orphan_contract
     = [\<lparr>c_Id = 1, c_EmpresaId = 10, c_Objeto = ''Portal'', c_IsAtivo = True\<rparr>]
   \<and> assigned orphan_contract 1
     = [\<lparr>pec_ContratoId = 1, pec_ColaboradorId = 7, pec_Ativo = True\<rparr>]
   \<and> \<not> evaluated orphan_contract (dt 2024 2 1) (dt 2024 2 29) 7
   \<and> SQL_RESUMO orphan_contract (dt 2024 2 1) (dt 2024 2 29) 3 = []"
  by (simp add: orphan_contract_def assigned_def evaluated_def SQL_RESUMO_def resumo_from_def)

lemma recorded_against_sel:
  "Contratos (recorded_against f st) = Contratos st"
  "Empresas (recorded_against f st) = Empresas st"
  "ProjetoEmpresaColaboradores (recorded_against f st) = ProjetoEmpresaColaboradores st"
  "Colaboradores (recorded_against f st) = Colaboradores st"
  by (simp_all add: recorded_against_def)

lemma nota_recorded_against: "nota (ac\<lparr>ac_ContratoId := k\<rparr>) = nota ac"
  by (simp add: nota_def)

lemma notas_recorded_against: "notas (recorded_against f st) ini fim = notas st ini fim"
  by (simp add: notas_def recorded_against_def filter_map o_def nota_recorded_against)

lemma resumo_from_recorded_against:
  "resumo_from (recorded_against f st) ini fim = resumo_from st ini fim"
  by (simp add: resumo_from_def notas_recorded_against recorded_against_sel cong: if_cong)

lemma SQL_RESUMO_sample_mar:
  "SQL_RESUMO two_contracts (dt 2024 3 1) (dt 2024 3 31) 3 =
      [\<lparr>ContratoId = 1, Cliente = ''Acme'', Projeto = ''Portal'', NColaboradores = 1,
        PiorNota = None, NotaMedia = None, ColabsRuins = 0\<rparr>,
       \<lparr>ContratoId = 2, Cliente = ''Acme'', Projeto = ''Suporte'', NColaboradores = 1,
        PiorNota = None, NotaMedia = None, ColabsRuins = 0\<rparr>]"
  by code_simp

lemma notas_keys: "distinct (map fst (notas st ini fim))"
  by (simp add: notas_def Let_def o_def)

lemma map_of_notas: "map_of (notas st ini fim) x = media_colaborador st ini fim x"
proof -
  define acs where "acs = filter (\<lambda>ac. between (ac_Periodo ac) ini fim) (AvaliacaoColaboradores st)"
  define g where "g = (\<lambda>k. avg (map nota (filter (\<lambda>ac. ac_ColaboradorId ac = k) acs)))"
  have n: "notas st ini fim = map (\<lambda>k. (k, g k)) (remdups (map ac_ColaboradorId acs))"
    by (simp add: notas_def acs_def g_def)
  have m: "filter (\<lambda>ac. between (ac_Periodo ac) ini fim \<and> ac_ColaboradorId ac = x)
             (AvaliacaoColaboradores st) = filter (\<lambda>ac. ac_ColaboradorId ac = x) acs"
    by (simp add: acs_def conj_commute)
  have mo: "map_of (notas st ini fim) x
      = (if x \<in> set (map ac_ColaboradorId acs) then Some (g x) else None)"
    by (simp add: n map_of_map_restrict restrict_map_def)
  show ?thesis
  proof (cases "x \<in> set (map ac_ColaboradorId acs)")
    case True
    then have "filter (\<lambda>ac. ac_ColaboradorId ac = x) acs \<noteq> []"
      by (auto simp: filter_empty_conv)
    then show ?thesis
      using True by (auto simp: mo media_colaborador_def m g_def split: list.splits)
  next
    case False
    then have "filter (\<lambda>ac. ac_ColaboradorId ac = x) acs = []"
      by (auto simp: filter_empty_conv)
    then show ?thesis
      using False by (simp add: mo media_colaborador_def m)
  qed
qed

lemma mixed_notas:
  "notas mixed_evaluations (dt 2024 2 1) (dt 2024 2 29) = [(7, 5 / 2), (8, 3)]"
  by code_simp

lemma mixed_resumo:
  "SQL_RESUMO mixed_evaluations (dt 2024 2 1) (dt 2024 2 29) 3.5 =
      [\<lparr>ContratoId = 1, Cliente = ''Acme'', Projeto = ''Portal'', NColaboradores = 2,
        PiorNota = Some (5 / 2), NotaMedia = Some (11 / 4), ColabsRuins = 2\<rparr>,
       \<lparr>ContratoId = 2, Cliente = ''Acme'', Projeto = ''Suporte'', NColaboradores = 1,
        PiorNota = Some (5 / 2), NotaMedia = Some (5 / 2), ColabsRuins = 1\<rparr>]"
  by code_simp

lemma mixed_resumo_only:
  "SQL_RESUMO (recorded_only 1 mixed_evaluations) (dt 2024 2 1) (dt 2024 2 29) 3.5 =
      [\<lparr>ContratoId = 1, Cliente = ''Acme'', Projeto = ''Portal'', NColaboradores = 2,
        PiorNota = Some 4, NotaMedia = Some 4, ColabsRuins = 0\<rparr>,
       \<lparr>ContratoId = 2, Cliente = ''Acme'', Projeto = ''Suporte'', NColaboradores = 1,
        PiorNota = Some 4, NotaMedia = Some 4, ColabsRuins = 0\<rparr>]"
  by code_simp

lemma mixed_detalhes:
  "SQL_DETALHES mixed_evaluations 1 (dt 2024 2 1) (dt 2024 2 29) =
      [\<lparr>NomeCompleto = ''Ana'', Periodo = dt 2024 2 5, Nota = 4, Tecnico = 4, Comunicacao = 4,
        Comprometimento = 4, Descricao = None\<rparr>]"
  by code_simp

lemma media_recorded_against:
  "media_colaborador (recorded_against f st) ini fim x = media_colaborador st ini fim x"
  using map_of_notas [of "recorded_against f st" ini fim x] map_of_notas [of st ini fim x]
  by (simp add: notas_recorded_against)

text \<open>
  C6. The \<open>notas\<close> subquery has one row per collaborator, and the row of collaborator \<open>x\<close>
  carries \<open>media_colaborador\<close>: the mean of the derived scores of all evaluations of \<open>x\<close>
  dated in the window, whatever contract each is recorded against; a collaborator with
  none has no row, and the left join gives it null. Recording the evaluations against
  other contracts changes neither \<open>notas\<close> nor the summary. So in \<open>mixed_evaluations\<close>,
  with threshold 3.5, contract 1 has \<open>PiorNota = 5/2\<close> (Ana's 4 and 1, the 1 recorded
  against contract 2), \<open>NotaMedia = 11/4\<close> and \<open>ColabsRuins = 2\<close> (Bia's 3 is recorded
  against contract 2 as well), where the evaluations recorded against contract 1 alone
  give 4, 4 and 0; the detail query of contract 1 returns the one evaluation recorded
  against it.
\<close>

theorem summary_ignores_evaluation_contract:
  "map_of (notas st ini fim) x = media_colaborador st ini fim x
   \<and> distinct (map fst (notas st ini fim))
   \<and> left_join_notas (notas st ini fim) x = [media_colaborador st ini fim x]
   \<and> notas (recorded_against f st) ini fim = notas st ini fim
   \<and> SQL_RESUMO (recorded_against f st) ini fim t = SQL_RESUMO st ini fim t
   \<and> notas mixed_evaluations (dt 2024 2 1) (dt 2024 2 29) = [(7, 5 / 2), (8, 3)]
   \<and> SQL_RESUMO mixed_evaluations (dt 2024 2 1) (dt 2024 2 29) 3.5 =
      [\<lparr>ContratoId = 1, Cliente = ''Acme'', Projeto = ''Portal'', NColaboradores = 2,
        PiorNota = Some (5 / 2), NotaMedia = Some (11 / 4), ColabsRuins = 2\<rparr>,
       \<lparr>ContratoId = 2, Cliente = ''Acme'', Projeto = ''Suporte'', NColaboradores = 1,
        PiorNota = Some (5 / 2), NotaMedia = Some (5 / 2), ColabsRuins = 1\<rparr>]
   \<and> SQL_RESUMO (recorded_only 1 mixed_evaluations) (dt 2024 2 1) (dt 2024 2 29) 3.5 =
      [\<lparr>ContratoId = 1, Cliente = ''Acme'', Projeto = ''Portal'', NColaboradores = 2,
        PiorNota = Some 4, NotaMedia = Some 4, ColabsRuins = 0\<rparr>,
       \<lparr>ContratoId = 2, Cliente = ''Acme'', Projeto = ''Suporte'', NColaboradores = 1,
        PiorNota = Some 4, NotaMedia = Some 4, ColabsRuins = 0\<rparr>]
   \<and> SQL_DETALHES mixed_evaluations 1 (dt 2024 2 1) (dt 2024 2 29) =
      [\<lparr>NomeCompleto = ''Ana'', Periodo = dt 2024 2 5, Nota = 4, Tecnico = 4, Comunicacao = 4,
        Comprometimento = 4, Descricao = None\<rparr>]"
proof (intro conjI)
  show "SQL_RESUMO (recorded_against f st) ini fim t = SQL_RESUMO st ini fim t"
    by (simp add: SQL_RESUMO_def resumo_from_recorded_against)
qed (rule map_of_notas notas_keys left_join_notas_media notas_recorded_against mixed_notas
    mixed_resumo mixed_resumo_only mixed_detalhes)+

text \<open>
  The inner join on \<open>Empresas\<close>: a contract whose client reference matches no client
  row has no row in the summary, whatever its assignments.
\<close>

lemma no_client_no_row:
  assumes "\<forall>c \<in> set (Contratos st). c_Id c = k \<longrightarrow>
      (\<forall>e \<in> set (Empresas st). e_Id e \<noteq> c_EmpresaId c)"
  shows "\<forall>r \<in> set (SQL_RESUMO st ini fim t). ContratoId r \<noteq> k"
proof
  fix r
  assume "r \<in> set (SQL_RESUMO st ini fim t)"
  then obtain key where key: "key \<in> group_key ` set (resumo_from st ini fim)"
    and r: "r = select_resumo t key (filter (\<lambda>j. group_key j = key) (resumo_from st ini fim))"
    by (rule SQL_RESUMO_rows)
  from key obtain c e where "c \<in> set (Contratos st)" "e \<in> set (Empresas st)"
    "e_Id e = c_EmpresaId c" "key = (c_Id c, e_Nome e, c_Objeto c)"
    by (auto simp: resumo_from_iff group_key_def)
  with assms have "fst key \<noteq> k"
    by auto
  then show "ContratoId r \<noteq> k"
    by (simp add: r select_resumo_sel)
qed

subsection \<open>Assignment rows and the aggregates\<close>

lemma SQL_RESUMO_double_assignment:
  "SQL_RESUMO double_assignment (dt 2024 2 1) (dt 2024 2 29) 3 =
      [\<lparr>ContratoId = 1, Cliente = ''Acme'', Projeto = ''Portal'', NColaboradores = 2,
        PiorNota = Some 2, NotaMedia = Some 3, ColabsRuins = 2\<rparr>]"
  by code_simp

text \<open>
  C7. The claim: \<open>ColabsRuins\<close> of a contract is the number of collaborators actively
  assigned to it whose average over the window is not null and strictly below the
  threshold, one flag per collaborator. The code on the store \<open>double_assignment\<close>, where
  Ana (average 2) has two active assignment rows on contract 1 and Bia (average 5) has
  one, with threshold 3: one collaborator is below the threshold, the contract has two
  collaborators, and \<open>ColabsRuins\<close> is 2, one flag per assignment row.
\<close>

theorem ColabsRuins_counts_rows:
  "SQL_RESUMO double_assignment (dt 2024 2 1) (dt 2024 2 29) 3 =
      [\<lparr>ContratoId = 1, Cliente = ''Acme'', Projeto = ''Portal'', NColaboradores = 2,
        PiorNota = Some 2, NotaMedia = Some 3, ColabsRuins = 2\<rparr>]
   \<and> bad_collaborators double_assignment (dt 2024 2 1) (dt 2024 2 29) 3 1 = 1
   \<and> media_colaborador double_assignment (dt 2024 2 1) (dt 2024 2 29) 7 = Some 2
   \<and> media_colaborador double_assignment (dt 2024 2 1) (dt 2024 2 29) 8 = Some 5"
  by code_simp

theorem unevaluated_contract_row_witness:
  "(\<exists>r \<in> set (SQL_RESUMO two_contracts (dt 2024 3 1) (dt 2024 3 31) 3). ContratoId r = 1)
   \<and> SQL_RESUMO two_contracts (dt 2024 3 1) (dt 2024 3 31) 3 =
      [\<lparr>ContratoId = 1, Cliente = ''Acme'', Projeto = ''Portal'', NColaboradores = 1,
        PiorNota = None, NotaMedia = None, ColabsRuins = 0\<rparr>,
       \<lparr>ContratoId = 2, Cliente = ''Acme'', Projeto = ''Suporte'', NColaboradores = 1,
        PiorNota = None, NotaMedia = None, ColabsRuins = 0\<rparr>]"
proof -
  let ?c = "\<lparr>c_Id = 1, c_EmpresaId = 10, c_Objeto = ''Portal'', c_IsAtivo = True\<rparr>"
  let ?e = "\<lparr>e_Id = 10, e_Nome = ''Acme''\<rparr>"
  have 1: "?c \<in> set (Contratos two_contracts)"
    by (simp add: two_contracts_def)
  have 2: "c_IsAtivo ?c"
    by simp
  have 3: "?e \<in> set (Empresas two_contracts)"
    by (simp add: two_contracts_def)
  have 4: "e_Id ?e = c_EmpresaId ?c"
    by simp
  have 5: "assigned two_contracts (c_Id ?c) \<noteq> []"
    by (simp add: assigned_def two_contracts_def)
  have 6: "\<forall>pec \<in> set (assigned two_contracts (c_Id ?c)).
      \<not> evaluated two_contracts (dt 2024 3 1) (dt 2024 3 31) (pec_ColaboradorId pec)"
    by (simp add: assigned_def evaluated_def two_contracts_def between_def date_le_def
        date_key_def dt_def)
  from unevaluated_contract_row [OF 1 2 3 4 5 6, of 3]
  show ?thesis
    by (simp add: SQL_RESUMO_sample_mar)
qed

lemma concat_map_single:
  assumes "distinct (map f xs)" and "x \<in> set xs"
    and "\<And>y. y \<in> set xs \<Longrightarrow> f y \<noteq> f x \<Longrightarrow> h y = []"
  shows "concat (map h xs) = h x"
  using assms
proof (induction xs)
  case Nil
  then show ?case by simp
next
  case (Cons y ys)
  show ?case
  proof (cases "y = x")
    case True
    have "h z = []" if "z \<in> set ys" for z
    proof -
      from Cons.prems(1) True have "f x \<notin> f ` set ys"
        by simp
      with that have "f z \<noteq> f x"
        by (metis imageI)
      with that show ?thesis
        by (simp add: Cons.prems(3))
    qed
    then have "concat (map h ys) = []"
      by simp
    with True show ?thesis
      by simp
  next
    case False
    with Cons.prems have x: "x \<in> set ys" and "f y \<noteq> f x"
      by force+
    then have "h y = []"
      by (simp add: Cons.prems(3))
    moreover have "concat (map h ys) = h x"
      using Cons.prems x by (intro Cons.IH) auto
    ultimately show ?thesis
      by simp
  qed
qed

lemma group_key_joined_rows:
  "j \<in> set (joined_rows st ini fim c e) \<Longrightarrow> group_key j = (c_Id c, e_Nome e, c_Objeto c)"
  by (auto simp: joined_rows_def group_key_def)

lemma filter_group_joined_rows:
  "filter (\<lambda>j. group_key j = (k1, k2, k3)) (joined_rows st ini fim c e)
     = (if (c_Id c, e_Nome e, c_Objeto c) = (k1, k2, k3) then joined_rows st ini fim c e else [])"
  by (auto simp: filter_empty_conv group_key_joined_rows intro!: filter_True)

lemma contract_group:
  assumes "primary_keys st"
    and "c \<in> set (Contratos st)" and "c_IsAtivo c"
    and "e \<in> set (Empresas st)" and "e_Id e = c_EmpresaId c"
  shows "filter (\<lambda>j. group_key j = (c_Id c, e_Nome e, c_Objeto c)) (resumo_from st ini fim)
     = joined_rows st ini fim c e"
proof -
  let ?k = "(c_Id c, e_Nome e, c_Objeto c)"
  define H where "H = (\<lambda>c' e'. filter (\<lambda>j. group_key j = ?k)
      (if e_Id e' = c_EmpresaId c' \<and> c_IsAtivo c' then joined_rows st ini fim c' e' else []))"
  have pk: "distinct (map c_Id (Contratos st))" "distinct (map e_Id (Empresas st))"
    using assms(1) by (simp_all add: primary_keys_def)
  have "filter (\<lambda>j. group_key j = ?k) (resumo_from st ini fim)
      = concat (map (\<lambda>c'. concat (map (H c') (Empresas st))) (Contratos st))"
    by (simp add: resumo_from_eq filter_concat o_def H_def)
  also have "\<dots> = concat (map (H c) (Empresas st))"
  proof (rule concat_map_single [where f = c_Id])
    fix c' :: contrato
    assume "c_Id c' \<noteq> c_Id c"
    then have "H c' e' = []" for e'
      by (simp add: H_def filter_group_joined_rows)
    then show "concat (map (H c') (Empresas st)) = []"
      by simp
  qed (use pk assms in auto)
  also have "\<dots> = H c e"
  proof (rule concat_map_single [where f = e_Id])
    fix e' :: empresa
    assume "e_Id e' \<noteq> e_Id e"
    then show "H c e' = []"
      using assms(5) by (simp add: H_def)
  qed (use pk assms in auto)
  also have "\<dots> = joined_rows st ini fim c e"
    using assms by (simp add: H_def filter_group_joined_rows)
  finally show ?thesis .
qed

lemma contract_keys:
  assumes "primary_keys st"
    and "c \<in> set (Contratos st)" and "e \<in> set (Empresas st)" and "e_Id e = c_EmpresaId c"
    and "k \<in> group_key ` set (resumo_from st ini fim)" and "fst k = c_Id c"
  shows "k = (c_Id c, e_Nome e, c_Objeto c)"
proof -
  from assms(5) obtain c' e' where c': "c' \<in> set (Contratos st)" and e': "e' \<in> set (Empresas st)"
    and ee: "e_Id e' = c_EmpresaId c'" and k: "k = (c_Id c', e_Nome e', c_Objeto c')"
    by (auto simp: resumo_from_iff group_key_def)
  have inj_c: "inj_on c_Id (set (Contratos st))" and inj_e: "inj_on e_Id (set (Empresas st))"
    using assms(1) by (simp_all add: primary_keys_def distinct_map)
  from assms(6) k have "c_Id c' = c_Id c"
    by simp
  with inj_c c' assms(2) have c: "c' = c"
    by (meson inj_onD)
  with ee assms(4) have "e_Id e' = e_Id e"
    by simp
  with inj_e e' assms(3) have "e' = e"
    by (meson inj_onD)
  with c k show ?thesis
    by simp
qed

lemma contract_row:
  assumes "primary_keys st"
    and "c \<in> set (Contratos st)" and "c_IsAtivo c"
    and "e \<in> set (Empresas st)" and "e_Id e = c_EmpresaId c"
    and "assigned st (c_Id c) \<noteq> []"
  shows "filter (\<lambda>r. ContratoId r = c_Id c) (SQL_RESUMO st ini fim t)
     = [select_resumo t (c_Id c, e_Nome e, c_Objeto c) (joined_rows st ini fim c e)]"
proof -
  let ?k = "(c_Id c, e_Nome e, c_Objeto c)"
  let ?rows = "resumo_from st ini fim"
  let ?keys = "remdups (map group_key ?rows)"
  have "joined_rows st ini fim c e \<noteq> []"
    using assms(6) by (simp add: joined_rows_def)
  then have "filter (\<lambda>j. group_key j = ?k) ?rows \<noteq> []"
    using assms by (simp add: contract_group)
  then obtain j where "j \<in> set ?rows" "group_key j = ?k"
    by (auto simp: filter_empty_conv)
  then have "?k \<in> group_key ` set ?rows"
    by (metis imageI)
  then have mem: "?k \<in> set ?keys"
    by simp
  have "(fst k = c_Id c) = (k = ?k)" if "k \<in> set ?keys" for k
  proof
    assume "fst k = c_Id c"
    moreover from that have "k \<in> group_key ` set ?rows"
      by simp
    ultimately show "k = ?k"
      using assms(1,2,4,5) by (intro contract_keys)
  next
    assume "k = ?k"
    then show "fst k = c_Id c"
      by simp
  qed
  then have "filter (\<lambda>k. fst k = c_Id c) ?keys = filter (\<lambda>k. k = ?k) ?keys"
    by (rule filter_cong [OF refl])
  also have "\<dots> = [?k]"
    using mem by (simp only: filter_eq_distinct distinct_remdups if_True)
  finally have "filter (\<lambda>k. fst k = c_Id c) ?keys = [?k]" .
  then have "filter (\<lambda>r. ContratoId r = c_Id c) (SQL_RESUMO st ini fim t)
      = [select_resumo t ?k (filter (\<lambda>j. group_key j = ?k) ?rows)]"
    by (simp add: SQL_RESUMO_def Let_def filter_map o_def select_resumo_sel)
  then show ?thesis
    using assms by (simp add: contract_group)
qed

lemma joined_rows_maps:
  "map joined_colab (joined_rows st ini fim c e) = map pec_ColaboradorId (assigned st (c_Id c))"
  "map joined_nota (joined_rows st ini fim c e)
     = map (\<lambda>pec. media_colaborador st ini fim (pec_ColaboradorId pec)) (assigned st (c_Id c))"
  "map (\<lambda>j. ruim t (joined_nota j)) (joined_rows st ini fim c e)
     = map (\<lambda>pec. ruim t (media_colaborador st ini fim (pec_ColaboradorId pec)))
         (assigned st (c_Id c))"
  by (simp_all add: joined_rows_def joined_colab_def joined_nota_def o_def)

lemma sum_list_partition:
  fixes f :: "'a \<Rightarrow> 'b :: comm_monoid_add"
  shows "sum_list (map f xs)
     = sum_list (map f (filter P xs)) + sum_list (map f (filter (\<lambda>x. \<not> P x) xs))"
  by (induction xs) (simp_all add: ac_simps)

lemma map_filter_const:
  "map (\<lambda>y. h (g y)) (filter (\<lambda>y. g y = x) ys) = replicate (length (filter (\<lambda>y. g y = x) ys)) (h x)"
  by (induction ys) simp_all

lemma sum_list_non_null:
  fixes ns :: "real option list"
  shows "sum_list (non_null ns) = sum_list (map (\<lambda>n. case n of None \<Rightarrow> 0 | Some v \<Rightarrow> v) ns)"
  by (induction ns) (simp_all add: non_null_def split: option.splits)

lemma length_non_null:
  "length (non_null ns) = sum_list (map (\<lambda>n. case n of None \<Rightarrow> 0 | Some v \<Rightarrow> 1) ns)"
  by (induction ns) (simp_all add: non_null_def split: option.splits)

lemma set_non_null: "set (non_null ns) = {v. Some v \<in> set ns}"
  by (induction ns) (auto simp: non_null_def split: option.splits)

lemma sql_min_set:
  "sql_min ns = (if set (non_null ns) = {} then None else Some (Min (set (non_null ns))))"
proof (cases "non_null ns")
  case Nil
  then show ?thesis by (simp add: sql_min_def)
next
  case (Cons v vs)
  have "fold min vs v = Min (set (v # vs))"
    by (simp only: Min.set_eq_fold)
  with Cons show ?thesis
    by (simp add: sql_min_def)
qed

lemma sql_avg_eq:
  "sql_avg ns = (if non_null ns = [] then None
                 else Some (sum_list (non_null ns) / real (length (non_null ns))))"
  by (simp add: sql_avg_def avg_def split: list.splits)

lemma sql_min_cong: "set ns = set ms \<Longrightarrow> sql_min ns = sql_min ms"
  by (simp add: sql_min_set set_non_null)

text \<open>
  C10. In a store whose contracts and clients have unique ids and whose contracts refer
  to clients of the store, let an active contract \<open>c\<close> have \<open>k \<ge> 1\<close> active assignment
  rows for collaborator \<open>x\<close>, and let \<open>others\<close> be its active assignment rows for the
  other collaborators, with averages \<open>ns\<close>. Then the summary has exactly one row for
  \<open>c\<close>, in which \<open>x\<close> counts once among the collaborators and its average enters the
  minimum \<open>PiorNota\<close> once, but, when that average is a number \<open>a\<close>, it enters the mean
  \<open>NotaMedia\<close> \<open>k\<close> times (\<open>k * a\<close> in the sum, \<open>k\<close> in the divisor) and, when \<open>a\<close> is below
  the threshold, adds \<open>k\<close> to \<open>ColabsRuins\<close>.
\<close>

theorem duplicate_assignment_rows:
  assumes "primary_keys st" and "foreign_keys st"
    and "c \<in> set (Contratos st)" and "c_IsAtivo c"
    and "k = length (filter (\<lambda>pec. pec_ColaboradorId pec = x) (assigned st (c_Id c)))"
    and "0 < k"
    and "others = filter (\<lambda>pec. pec_ColaboradorId pec \<noteq> x) (assigned st (c_Id c))"
    and "ns = map (\<lambda>pec. media_colaborador st ini fim (pec_ColaboradorId pec)) others"
  shows "\<exists>r. filter (\<lambda>r. ContratoId r = c_Id c) (SQL_RESUMO st ini fim t) = [r]
      \<and> NColaboradores r = 1 + length (remdups (map pec_ColaboradorId others))
      \<and> PiorNota r = sql_min (media_colaborador st ini fim x # ns)
      \<and> (\<forall>a. media_colaborador st ini fim x = Some a \<longrightarrow>
            NotaMedia r = Some ((real k * a + sum_list (non_null ns))
                                  / (real k + real (length (non_null ns))))
            \<and> (a < t \<longrightarrow> ColabsRuins r = k + sum_list (map (ruim t) ns)))"
proof -
  let ?ps = "assigned st (c_Id c)"
  let ?m = "\<lambda>pec. media_colaborador st ini fim (pec_ColaboradorId pec)"
  let ?dup = "filter (\<lambda>pec. pec_ColaboradorId pec = x) ?ps"
  obtain e where e: "e \<in> set (Empresas st)" "e_Id e = c_EmpresaId c"
    using assms(2,3) by (auto simp: foreign_keys_def)
  define r where "r = select_resumo t (c_Id c, e_Nome e, c_Objeto c) (joined_rows st ini fim c e)"
  have ne: "?ps \<noteq> []"
    using assms(5,6) by auto
  have row: "filter (\<lambda>r. ContratoId r = c_Id c) (SQL_RESUMO st ini fim t) = [r]"
    unfolding r_def using assms(1,3,4) e ne by (rule contract_row)
  have dup: "map ?m ?dup = replicate k (media_colaborador st ini fim x)"
    unfolding assms(5) by (rule map_filter_const)
  have ids: "pec_ColaboradorId ` set ?ps = insert x (pec_ColaboradorId ` set others)"
  proof -
    have "?dup \<noteq> []"
      using assms(5,6) by auto
    then have "x \<in> pec_ColaboradorId ` set ?ps"
      by (auto simp: filter_empty_conv)
    then show ?thesis
      unfolding assms(7) by auto
  qed
  have "x \<notin> pec_ColaboradorId ` set others"
    unfolding assms(7) by auto
  then have n: "NColaboradores r = 1 + length (remdups (map pec_ColaboradorId others))"
    by (simp add: r_def select_resumo_sel joined_rows_maps length_remdups_card_conv ids)
  have "set (map ?m ?ps) = set (map ?m ?dup) \<union> set (map ?m others)"
    unfolding assms(7) by auto
  also have "\<dots> = set (media_colaborador st ini fim x # ns)"
    using assms(6) by (simp add: dup assms(8))
  finally have p: "PiorNota r = sql_min (media_colaborador st ini fim x # ns)"
    by (simp add: r_def select_resumo_sel joined_rows_maps sql_min_cong)
  have mean: "NotaMedia r = Some ((real k * a + sum_list (non_null ns))
                                  / (real k + real (length (non_null ns))))"
    and bad: "a < t \<Longrightarrow> ColabsRuins r = k + sum_list (map (ruim t) ns)"
    if a: "media_colaborador st ini fim x = Some a" for a
  proof -
    have split: "sum_list (map (\<lambda>pec. g (?m pec)) ?ps)
        = of_nat k * g (Some a) + sum_list (map g ns)"
      for g :: "real option \<Rightarrow> 'b :: comm_semiring_1"
    proof -
      have "map (\<lambda>pec. g (?m pec)) ?dup = replicate k (g (Some a))"
        using map_filter_const [of "\<lambda>i. g (media_colaborador st ini fim i)" pec_ColaboradorId x ?ps]
        by (simp add: assms(5) a)
      then show ?thesis
        using sum_list_partition [of "\<lambda>pec. g (?m pec)" ?ps "\<lambda>pec. pec_ColaboradorId pec = x"]
        by (simp add: assms(7,8) sum_list_replicate o_def)
    qed
    have s: "sum_list (non_null (map ?m ?ps)) = real k * a + sum_list (non_null ns)"
      using split [of "\<lambda>n. case n of None \<Rightarrow> 0 | Some v \<Rightarrow> v"]
      by (simp add: sum_list_non_null o_def)
    have l: "length (non_null (map ?m ?ps)) = k + length (non_null ns)"
      using split [of "\<lambda>n. case n of None \<Rightarrow> 0 | Some v \<Rightarrow> (1::nat)"]
      by (simp add: length_non_null o_def)
    have "non_null (map ?m ?ps) \<noteq> []"
      using l assms(6) by auto
    then show "NotaMedia r = Some ((real k * a + sum_list (non_null ns))
                                  / (real k + real (length (non_null ns))))"
      by (simp add: r_def select_resumo_sel joined_rows_maps sql_avg_eq s l)
    assume "a < t"
    then have "ruim t (Some a) = 1"
      by (simp add: ruim_def)
    then show "ColabsRuins r = k + sum_list (map (ruim t) ns)"
      using split [of "ruim t"]
      by (simp add: r_def select_resumo_sel joined_rows_maps)
  qed
  from row n p mean bad show ?thesis
    by blast
qed

theorem duplicate_assignment_rows_witness:
  "(\<exists>r. filter (\<lambda>r. ContratoId r = 1) (SQL_RESUMO double_assignment (dt 2024 2 1) (dt 2024 2 29) 3) = [r]
      \<and> NColaboradores r = 2 \<and> PiorNota r = Some 2 \<and> NotaMedia r = Some ((2 * 2 + 5) / (2 + 1))
      \<and> ColabsRuins r = 2 + 0)"
proof -
  let ?c = "\<lparr>c_Id = 1, c_EmpresaId = 10, c_Objeto = ''Portal'', c_IsAtivo = True\<rparr>"
  let ?o = "[\<lparr>pec_ContratoId = 1, pec_ColaboradorId = 8, pec_Ativo = True\<rparr>]"
  let ?ini = "dt 2024 2 1" and ?fim = "dt 2024 2 29"
  have m7: "media_colaborador double_assignment ?ini ?fim 7 = Some 2"
    and m8: "media_colaborador double_assignment ?ini ?fim 8 = Some 5"
    by (simp_all add: media_colaborador_def double_assignment_def between_def date_le_def
        date_key_def dt_def avg_def nota_def)
  have 1: "primary_keys double_assignment"
    by (simp add: primary_keys_def double_assignment_def)
  have 2: "foreign_keys double_assignment"
    by (simp add: foreign_keys_def double_assignment_def)
  have 3: "?c \<in> set (Contratos double_assignment)"
    by (simp add: double_assignment_def)
  have 4: "c_IsAtivo ?c"
    by simp
  have 5: "2 = length (filter (\<lambda>pec. pec_ColaboradorId pec = 7)
      (assigned double_assignment (c_Id ?c)))"
    by (simp add: assigned_def double_assignment_def)
  have 6: "0 < (2::nat)"
    by simp
  have 7: "?o = filter (\<lambda>pec. pec_ColaboradorId pec \<noteq> 7) (assigned double_assignment (c_Id ?c))"
    by (simp add: assigned_def double_assignment_def)
  have 8: "[Some 5] = map (\<lambda>pec. media_colaborador double_assignment ?ini ?fim
      (pec_ColaboradorId pec)) ?o"
    by (simp add: m8)
  from duplicate_assignment_rows [OF 1 2 3 4 5 6 7 8, of 3]
  show ?thesis
    by (simp add: m7 sql_min_def non_null_def ruim_def numeral_2_eq_2)
qed

lemma sum_list_indicator:
  fixes f :: "'a \<Rightarrow> nat"
  assumes "\<forall>x. f x = 0 \<or> f x = 1"
  shows "sum_list (map f xs) = length (filter (\<lambda>x. f x = 1) xs)"
proof (induction xs)
  case Nil
  show ?case by simp
next
  case (Cons x xs)
  from assms have "f x = 0 \<or> f x = 1" ..
  with Cons show ?case
    by auto
qed

text \<open>
  When no collaborator has two active assignment rows on the contract, \<open>ColabsRuins\<close> is
  the number of collaborators below the threshold.
\<close>

lemma ColabsRuins_distinct_assignments:
  assumes "primary_keys st" and "foreign_keys st"
    and "c \<in> set (Contratos st)" and "c_IsAtivo c"
    and "assigned st (c_Id c) \<noteq> []"
    and "distinct (map pec_ColaboradorId (assigned st (c_Id c)))"
  shows "\<exists>r. filter (\<lambda>r. ContratoId r = c_Id c) (SQL_RESUMO st ini fim t) = [r]
      \<and> ColabsRuins r = bad_collaborators st ini fim t (c_Id c)"
proof -
  obtain e where e: "e \<in> set (Empresas st)" "e_Id e = c_EmpresaId c"
    using assms(2,3) by (auto simp: foreign_keys_def)
  define r where "r = select_resumo t (c_Id c, e_Nome e, c_Objeto c) (joined_rows st ini fim c e)"
  have row: "filter (\<lambda>r. ContratoId r = c_Id c) (SQL_RESUMO st ini fim t) = [r]"
    unfolding r_def using assms(1,3,4) e assms(5) by (rule contract_row)
  have "ColabsRuins r = sum_list (map (\<lambda>x. ruim t (media_colaborador st ini fim x))
      (map pec_ColaboradorId (assigned st (c_Id c))))"
    by (simp add: r_def select_resumo_sel joined_rows_maps o_def)
  also have "\<dots> = bad_collaborators st ini fim t (c_Id c)"
    unfolding bad_collaborators_def distinct_remdups_id [OF assms(6)]
    by (rule sum_list_indicator) (simp add: ruim_def split: option.splits)
  finally show ?thesis
    using row by blast
qed

end
